theory Spec2Isabelle
  imports Main
begin

section \<open>Python values and the built-ins the server relies on\<close>

text \<open>
  Both source files shuffle Python values around: the attributes of the remote records,
  the dictionaries built from them, the decoded body of a POST request. These are the
  values \<open>json.loads\<close> can produce. A dictionary keeps its insertion order, so it is
  an association list. A string is the list of the bytes of its UTF-8 encoding; for the
  operations used here (\<open>in\<close>, \<open>startswith\<close>, \<open>replace\<close> with ASCII patterns) working
  on the encoding is working on the string. A float is opaque: the code only passes floats on.
\<close>

datatype pyfloat = Finite int int | Infinite bool | NaN

datatype json =
    JNull
  | JBool bool
  | JInt int
  | JFloat pyfloat
  | JStr string
  | JArr "json list"
  | JObj "(string \<times> json) list"

type_synonym py_dict = "(string \<times> json) list"

text \<open>
  The exceptions that leave a function or a method of the server. None of them is ever
  formatted into a response, so only the exception of the remote client carries a
  message, whatever the client says.
\<close>

datatype py_exception =
    ValueError
  | TypeError
  | IndexError
  | OverflowError
  | UnicodeDecodeError
  | RemoteError string

text \<open>
  Outside ASCII the results of \<open>str.lower\<close>, \<open>int\<close> and \<open>repr\<close> come from the Unicode
  tables of the Python runtime, and the text of a float from its float formatting.
  They are parameters of the model: every function that depends on them takes the
  runtime as its first argument, and every theorem holds for every runtime. On ASCII
  text the functions below compute the result themselves.
\<close>

record runtime =
  str_lower :: "string \<Rightarrow> string"
  str_int :: "string \<Rightarrow> py_exception + int"
  str_repr :: "string \<Rightarrow> string"
  float_repr :: "pyfloat \<Rightarrow> string"

subsection \<open>Strings\<close>

definition sq :: string where
  "sq = [CHR 0x27]"

definition bs :: string where
  "bs = [CHR 0x5C]"

definition is_ascii :: "string \<Rightarrow> bool" where
  "is_ascii s = list_all (\<lambda>c. (of_char c :: nat) < 128) s"

definition lower_char :: "char \<Rightarrow> char" where
  "lower_char c =
     (let n = (of_char c :: nat)
      in if 65 \<le> n \<and> n \<le> 90 then char_of (n + 32) else c)"

text \<open>\<open>s.lower()\<close>\<close>

definition py_lower :: "runtime \<Rightarrow> string \<Rightarrow> string" where
  "py_lower rt s = (if is_ascii s then map lower_char s else str_lower rt s)"

text \<open>\<open>s.startswith(p)\<close>\<close>

definition py_startswith :: "string \<Rightarrow> string \<Rightarrow> bool" where
  "py_startswith s p = (take (length p) s = p)"

text \<open>\<open>q in s\<close> on strings: does \<open>q\<close> occur in \<open>s\<close> as a contiguous run.\<close>

fun py_in :: "string \<Rightarrow> string \<Rightarrow> bool" where
  "py_in q [] = (q = [])"
| "py_in q (c # cs) = (py_startswith (c # cs) q \<or> py_in q cs)"

text \<open>
  \<open>s.replace(old, new)\<close> for a non-empty \<open>old\<close>: every occurrence, left to right,
  without overlap.
\<close>

function py_replace :: "string \<Rightarrow> string \<Rightarrow> string \<Rightarrow> string" where
  "py_replace old new s =
     (if s = [] \<or> old = [] then s
      else if py_startswith s old then new @ py_replace old new (drop (length old) s)
      else hd s # py_replace old new (tl s))"
  by pat_completeness auto
termination
  by (relation "measure (\<lambda>(old, new, s). length s)") auto

declare py_replace.simps [simp del]

subsection \<open>\<open>str\<close> and \<open>repr\<close>\<close>

definition digit_char :: "nat \<Rightarrow> char" where
  "digit_char n = char_of (48 + n)"

function dec_nat :: "nat \<Rightarrow> string" where
  "dec_nat n = (if n < 10 then [digit_char n] else dec_nat (n div 10) @ [digit_char (n mod 10)])"
  by pat_completeness auto
termination
  by (relation "measure id") auto

declare dec_nat.simps [simp del]

definition dec_int :: "int \<Rightarrow> string" where
  "dec_int i = (if i < 0 then CHR ''-'' # dec_nat (nat (- i)) else dec_nat (nat i))"

definition hex_char :: "nat \<Rightarrow> char" where
  "hex_char n = (if n < 10 then char_of (48 + n) else char_of (87 + n))"

text \<open>
  One character inside the quotes of \<open>repr\<close> of an ASCII string, \<open>quote\<close> the quote in
  use.
\<close>

definition repr_char :: "char \<Rightarrow> char \<Rightarrow> string" where
  "repr_char quote c =
     (let n = (of_char c :: nat)
      in if c = quote \<or> c = CHR 0x5C then [CHR 0x5C, c]
         else if n = 9 then bs @ ''t''
         else if n = 10 then bs @ ''n''
         else if n = 13 then bs @ ''r''
         else if n < 32 \<or> n = 127 then bs @ ''x'' @ [hex_char (n div 16), hex_char (n mod 16)]
         else [c])"

definition ascii_repr :: "string \<Rightarrow> string" where
  "ascii_repr s =
     (let quote = (if CHR 0x27 \<in> set s \<and> CHR 0x22 \<notin> set s then CHR 0x22 else CHR 0x27)
      in [quote] @ concat (map (repr_char quote) s) @ [quote])"

text \<open>\<open>repr(s)\<close> of a string\<close>

definition repr_str :: "runtime \<Rightarrow> string \<Rightarrow> string" where
  "repr_str rt s = (if is_ascii s then ascii_repr s else str_repr rt s)"

text \<open>\<open>', '.join(parts)\<close>\<close>

fun join_comma :: "string list \<Rightarrow> string" where
  "join_comma [] = []"
| "join_comma [p] = p"
| "join_comma (p # q # ps) = p @ '', '' @ join_comma (q # ps)"

primrec py_repr :: "runtime \<Rightarrow> json \<Rightarrow> string" where
  "py_repr rt JNull = ''None''"
| "py_repr rt (JBool b) = (if b then ''True'' else ''False'')"
| "py_repr rt (JInt i) = dec_int i"
| "py_repr rt (JFloat f) = float_repr rt f"
| "py_repr rt (JStr s) = repr_str rt s"
| "py_repr rt (JArr xs) = ''['' @ join_comma (map (py_repr rt) xs) @ '']''"
| "py_repr rt (JObj kvs) =
     ''{'' @ join_comma (map (\<lambda>kv. repr_str rt (fst kv) @ '': '' @ snd kv)
                          (map (map_prod id (py_repr rt)) kvs)) @ ''}''"

definition py_str :: "runtime \<Rightarrow> json \<Rightarrow> string" where
  "py_str rt v = (case v of JStr s \<Rightarrow> s | _ \<Rightarrow> py_repr rt v)"

text \<open>\<open>type(v).__name__\<close>\<close>

fun type_name :: "json \<Rightarrow> string" where
  "type_name JNull = ''NoneType''"
| "type_name (JBool _) = ''bool''"
| "type_name (JInt _) = ''int''"
| "type_name (JFloat _) = ''float''"
| "type_name (JStr _) = ''str''"
| "type_name (JArr _) = ''list''"
| "type_name (JObj _) = ''dict''"

subsection \<open>\<open>int(s)\<close> on a string\<close>

text \<open>
  On an ASCII string \<open>int\<close> skips the white space of the C locale at both ends, takes one
  optional sign, and wants groups of digits with single underscores between them; since
  Python 3.11 it refuses more than 4300 digits. Every failure is a \<open>ValueError\<close>.
\<close>

definition is_space :: "char \<Rightarrow> bool" where
  "is_space c = (let n = (of_char c :: nat) in (9 \<le> n \<and> n \<le> 13) \<or> n = 32)"

definition is_digit :: "char \<Rightarrow> bool" where
  "is_digit c = (let n = (of_char c :: nat) in 48 \<le> n \<and> n \<le> 57)"

definition py_strip :: "string \<Rightarrow> string" where
  "py_strip s = rev (dropWhile is_space (rev (dropWhile is_space s)))"

fun digits_ok :: "string \<Rightarrow> bool" where
  "digits_ok [] = False"
| "digits_ok [c] = is_digit c"
| "digits_ok (c # d # cs) =
     (is_digit c \<and> (if d = CHR ''_'' then digits_ok cs else digits_ok (d # cs)))"

definition digits_value :: "string \<Rightarrow> int" where
  "digits_value ds = foldl (\<lambda>acc c. acc * 10 + (int (of_char c) - 48)) 0 (filter is_digit ds)"

definition int_max_str_digits :: nat where
  "int_max_str_digits = 4300"

definition ascii_int :: "string \<Rightarrow> py_exception + int" where
  "ascii_int s =
     (let t = py_strip s;
          neg = (t \<noteq> [] \<and> hd t = CHR ''-'');
          body = (if t \<noteq> [] \<and> (hd t = CHR ''-'' \<or> hd t = CHR ''+'') then tl t else t)
      in if \<not> digits_ok body then Inl ValueError
         else if length (filter is_digit body) > int_max_str_digits then Inl ValueError
         else Inr (if neg then - digits_value body else digits_value body))"

definition py_int :: "runtime \<Rightarrow> string \<Rightarrow> py_exception + int" where
  "py_int rt s = (if is_ascii s then ascii_int s else str_int rt s)"

subsection \<open>Dictionaries and lists\<close>

text \<open>\<open>d[k] = v\<close>: an existing key keeps its place, a new key goes to the end.\<close>

fun dict_set :: "py_dict \<Rightarrow> string \<Rightarrow> json \<Rightarrow> py_dict" where
  "dict_set [] k v = [(k, v)]"
| "dict_set ((k', v') # d) k v = (if k' = k then (k, v) # d else (k', v') # dict_set d k v)"

definition dict_get :: "py_dict \<Rightarrow> string \<Rightarrow> json option" where
  "dict_get d k = map_of d k"


text \<open>
  \<open>d[k].append(x)\<close>. The source appends only under a key it has just bound to a list;
  on anything else the dictionary is left as it is.
\<close>

definition dict_append :: "py_dict \<Rightarrow> string \<Rightarrow> json \<Rightarrow> py_dict" where
  "dict_append d k x =
     (case map_of d k of
        Some (JArr xs) \<Rightarrow> dict_set d k (JArr (xs @ [x]))
      | _ \<Rightarrow> d)"

text \<open>
  \<open>obj.get(k, default)\<close>. Only a dictionary has \<open>get\<close>; on anything else the
  attribute lookup raises an \<open>AttributeError\<close>, of which \<open>Inl\<close> gives the message.
\<close>

definition py_get :: "json \<Rightarrow> string \<Rightarrow> json \<Rightarrow> string + json" where
  "py_get obj k dflt =
     (case obj of
        JObj d \<Rightarrow> Inr (case map_of d k of Some v \<Rightarrow> v | None \<Rightarrow> dflt)
      | _ \<Rightarrow> Inl (sq @ type_name obj @ sq @ '' object has no attribute '' @ sq @ ''get'' @ sq))"


section \<open>The remote records\<close>

text \<open>
  The attributes the code reads from the records of the Shopify client. An attribute that
  is only copied into the output can hold any value. The four attributes that
  \<open>search_products\<close> lower-cases are text. An attribute the code probes with
  \<open>hasattr\<close> before reading it is optional: \<open>None\<close> stands for a record without it
  (or, where the code also tests its truth, with a null in it).
\<close>

record variant =
  v_id :: json
  v_title :: json
  v_price :: json
  v_sku :: json
  v_inventory_quantity :: json

record image =
  i_id :: json
  i_src :: json
  i_position :: json

record product =
  p_id :: json
  p_title :: string
  p_body_html :: json
  p_product_type :: string
  p_vendor :: string
  p_tags :: string
  p_created_at :: json
  p_updated_at :: json
  p_variants :: "variant list"
  p_images :: "image list"

record address =
  a_address1 :: json
  a_city :: json
  a_province :: json
  a_country :: json
  a_zip :: json

record customer =
  c_id :: json
  c_email :: json
  c_first_name :: json
  c_last_name :: json
  c_orders_count :: json
  c_total_spent :: json
  c_created_at :: json
  c_addresses :: "address list option"

record order_customer =
  oc_id :: json
  oc_email :: json
  oc_first_name :: json
  oc_last_name :: json

record shipping_address =
  sa_name :: json
  sa_address1 :: json
  sa_city :: json
  sa_province :: json
  sa_country :: json
  sa_zip :: json

record line_item =
  li_id :: json
  li_title :: json
  li_quantity :: json
  li_price :: json
  li_sku :: json
  li_product_id :: json
  li_variant_id :: json

record order =
  o_id :: json
  o_order_number :: json
  o_email :: json
  o_created_at :: json
  o_total_price :: json
  o_subtotal_price :: json
  o_total_tax :: json
  o_currency :: json
  o_financial_status :: json
  o_fulfillment_status :: json
  o_customer :: "order_customer option"
  o_shipping_address :: "shipping_address option"
  o_line_items :: "line_item list"

record shop =
  s_id :: json
  s_name :: json
  s_email :: json
  s_domain :: json
  s_province :: json
  s_country :: json
  s_address1 :: json
  s_zip :: json
  s_city :: json
  s_phone :: json
  s_created_at :: json
  s_shop_owner :: json
  s_plan_name :: json
  s_has_storefront :: json
  s_money_format :: json
  s_weight_unit :: json
  s_primary_locale :: json
  s_country_name :: json
  s_currency :: json
  s_timezone :: json

section \<open>The remote client\<close>

text \<open>
  The client is a black box: each of its operations either returns records or raises.
  \<open>product_find\<close> is \<open>shopify.Product.find(limit=...)\<close>, \<open>product_get\<close> is
  \<open>shopify.Product.find(id)\<close>, and so on. The limit is whatever value the caller hands
  over: the POST route passes the decoded JSON value on unchecked.
  Every call a function makes is returned next to its result, in the order made.
\<close>

record client =
  product_find :: "json \<Rightarrow> py_exception + product list"
  product_get :: "string \<Rightarrow> py_exception + product"
  customer_find :: "json \<Rightarrow> py_exception + customer list"
  customer_get :: "string \<Rightarrow> py_exception + customer"
  order_find :: "json \<Rightarrow> py_exception + order list"
  shop_current :: "py_exception + shop"

datatype call =
    ProductFind json
  | ProductGet string
  | CustomerFind json
  | CustomerGet string
  | OrderFind json
  | ShopCurrent


section \<open>shopify\_mcp.py: the data retrieval functions\<close>

subsection \<open>\<open>get_product_list\<close>\<close>

text \<open>
  The dictionary of a product is created with empty \<open>variants\<close> and \<open>images\<close> lists,
  then one loop appends the variants and another the images, each in the record's order.
\<close>

definition variant_dict :: "variant \<Rightarrow> json" where
  "variant_dict v = JObj
     [(''id'', v_id v),
      (''title'', v_title v),
      (''price'', v_price v),
      (''sku'', v_sku v),
      (''inventory_quantity'', v_inventory_quantity v)]"

definition image_dict :: "image \<Rightarrow> json" where
  "image_dict i = JObj
     [(''id'', i_id i),
      (''src'', i_src i),
      (''position'', i_position i)]"

fun add_variants :: "py_dict \<Rightarrow> variant list \<Rightarrow> py_dict" where
  "add_variants d [] = d"
| "add_variants d (v # vs) = add_variants (dict_append d ''variants'' (variant_dict v)) vs"

fun add_images :: "py_dict \<Rightarrow> image list \<Rightarrow> py_dict" where
  "add_images d [] = d"
| "add_images d (i # is) = add_images (dict_append d ''images'' (image_dict i)) is"

definition product_dict_init :: "runtime \<Rightarrow> product \<Rightarrow> py_dict" where
  "product_dict_init rt p =
     [(''id'', p_id p),
      (''title'', JStr (p_title p)),
      (''description'', p_body_html p),
      (''product_type'', JStr (p_product_type p)),
      (''vendor'', JStr (p_vendor p)),
      (''tags'', JStr (p_tags p)),
      (''created_at'', JStr (py_str rt (p_created_at p))),
      (''updated_at'', JStr (py_str rt (p_updated_at p))),
      (''variants'', JArr []),
      (''images'', JArr [])]"

definition product_dict :: "runtime \<Rightarrow> product \<Rightarrow> py_dict" where
  "product_dict rt p = add_images (add_variants (product_dict_init rt p) (p_variants p)) (p_images p)"

fun product_loop :: "runtime \<Rightarrow> json list \<Rightarrow> product list \<Rightarrow> json list" where
  "product_loop rt product_list [] = product_list"
| "product_loop rt product_list (p # ps) =
     product_loop rt (product_list @ [JObj (product_dict rt p)]) ps"

definition get_product_list :: "runtime \<Rightarrow> client \<Rightarrow> json \<Rightarrow> json \<times> call list" where
  "get_product_list rt c limit =
     (case product_find c limit of
        Inl e \<Rightarrow> (JArr [], [ProductFind limit])
      | Inr products \<Rightarrow> (JArr (product_loop rt [] products), [ProductFind limit]))"

subsection \<open>\<open>get_customer_list\<close>\<close>

definition address_dict :: "address \<Rightarrow> json" where
  "address_dict a = JObj
     [(''address1'', a_address1 a),
      (''city'', a_city a),
      (''province'', a_province a),
      (''country'', a_country a),
      (''zip'', a_zip a)]"

fun add_addresses :: "py_dict \<Rightarrow> address list \<Rightarrow> py_dict" where
  "add_addresses d [] = d"
| "add_addresses d (a # as) = add_addresses (dict_append d ''addresses'' (address_dict a)) as"

definition customer_dict_init :: "runtime \<Rightarrow> customer \<Rightarrow> py_dict" where
  "customer_dict_init rt cu =
     [(''id'', c_id cu),
      (''email'', c_email cu),
      (''first_name'', c_first_name cu),
      (''last_name'', c_last_name cu),
      (''orders_count'', c_orders_count cu),
      (''total_spent'', c_total_spent cu),
      (''created_at'', JStr (py_str rt (c_created_at cu))),
      (''addresses'', JArr [])]"

definition customer_dict :: "runtime \<Rightarrow> customer \<Rightarrow> py_dict" where
  "customer_dict rt cu =
     (case c_addresses cu of
        None \<Rightarrow> customer_dict_init rt cu
      | Some as \<Rightarrow> add_addresses (customer_dict_init rt cu) as)"

fun customer_loop :: "runtime \<Rightarrow> json list \<Rightarrow> customer list \<Rightarrow> json list" where
  "customer_loop rt customer_list [] = customer_list"
| "customer_loop rt customer_list (cu # cus) =
     customer_loop rt (customer_list @ [JObj (customer_dict rt cu)]) cus"

definition get_customer_list :: "runtime \<Rightarrow> client \<Rightarrow> json \<Rightarrow> json \<times> call list" where
  "get_customer_list rt c limit =
     (case customer_find c limit of
        Inl e \<Rightarrow> (JArr [], [CustomerFind limit])
      | Inr customers \<Rightarrow> (JArr (customer_loop rt [] customers), [CustomerFind limit]))"

subsection \<open>\<open>get_order_list\<close>\<close>

definition order_customer_dict :: "order_customer \<Rightarrow> json" where
  "order_customer_dict oc = JObj
     [(''id'', oc_id oc),
      (''email'', oc_email oc),
      (''first_name'', oc_first_name oc),
      (''last_name'', oc_last_name oc)]"

definition shipping_address_dict :: "shipping_address \<Rightarrow> json" where
  "shipping_address_dict sa = JObj
     [(''name'', sa_name sa),
      (''address1'', sa_address1 sa),
      (''city'', sa_city sa),
      (''province'', sa_province sa),
      (''country'', sa_country sa),
      (''zip'', sa_zip sa)]"

definition item_dict :: "line_item \<Rightarrow> json" where
  "item_dict li = JObj
     [(''id'', li_id li),
      (''title'', li_title li),
      (''quantity'', li_quantity li),
      (''price'', li_price li),
      (''sku'', li_sku li),
      (''product_id'', li_product_id li),
      (''variant_id'', li_variant_id li)]"

fun add_line_items :: "py_dict \<Rightarrow> line_item list \<Rightarrow> py_dict" where
  "add_line_items d [] = d"
| "add_line_items d (li # lis) = add_line_items (dict_append d ''line_items'' (item_dict li)) lis"

definition order_dict_init :: "runtime \<Rightarrow> order \<Rightarrow> py_dict" where
  "order_dict_init rt ord =
     [(''id'', o_id ord),
      (''order_number'', o_order_number ord),
      (''email'', o_email ord),
      (''created_at'', JStr (py_str rt (o_created_at ord))),
      (''total_price'', o_total_price ord),
      (''subtotal_price'', o_subtotal_price ord),
      (''total_tax'', o_total_tax ord),
      (''currency'', o_currency ord),
      (''financial_status'', o_financial_status ord),
      (''fulfillment_status'', o_fulfillment_status ord),
      (''customer'', JObj []),
      (''shipping_address'', JObj []),
      (''line_items'', JArr [])]"

definition order_dict :: "runtime \<Rightarrow> order \<Rightarrow> py_dict" where
  "order_dict rt ord =
     (let d0 = order_dict_init rt ord;
          d1 = (case o_customer ord of
                  None \<Rightarrow> d0
                | Some oc \<Rightarrow> dict_set d0 ''customer'' (order_customer_dict oc));
          d2 = (case o_shipping_address ord of
                  None \<Rightarrow> d1
                | Some sa \<Rightarrow> dict_set d1 ''shipping_address'' (shipping_address_dict sa))
      in add_line_items d2 (o_line_items ord))"

fun order_loop :: "runtime \<Rightarrow> json list \<Rightarrow> order list \<Rightarrow> json list" where
  "order_loop rt order_list [] = order_list"
| "order_loop rt order_list (ord # ords) =
     order_loop rt (order_list @ [JObj (order_dict rt ord)]) ords"

definition get_order_list :: "runtime \<Rightarrow> client \<Rightarrow> json \<Rightarrow> json \<times> call list" where
  "get_order_list rt c limit =
     (case order_find c limit of
        Inl e \<Rightarrow> (JArr [], [OrderFind limit])
      | Inr orders \<Rightarrow> (JArr (order_loop rt [] orders), [OrderFind limit]))"

subsection \<open>\<open>search_products\<close>\<close>

text \<open>
  The query is lower-cased once, after the fetch. The test on a product is the source's
  chain of four \<open>in\<close> tests.
\<close>

definition product_matches :: "runtime \<Rightarrow> string \<Rightarrow> product \<Rightarrow> bool" where
  "product_matches rt query p =
     (py_in query (py_lower rt (p_title p)) \<or>
      py_in query (py_lower rt (p_vendor p)) \<or>
      py_in query (py_lower rt (p_product_type p)) \<or>
      py_in query (py_lower rt (p_tags p)))"

definition search_variant_dict :: "variant \<Rightarrow> json" where
  "search_variant_dict v = JObj
     [(''id'', v_id v),
      (''title'', v_title v),
      (''price'', v_price v),
      (''sku'', v_sku v)]"

fun add_search_variants :: "py_dict \<Rightarrow> variant list \<Rightarrow> py_dict" where
  "add_search_variants d [] = d"
| "add_search_variants d (v # vs) =
     add_search_variants (dict_append d ''variants'' (search_variant_dict v)) vs"

definition search_dict_init :: "product \<Rightarrow> py_dict" where
  "search_dict_init p =
     [(''id'', p_id p),
      (''title'', JStr (p_title p)),
      (''description'', p_body_html p),
      (''product_type'', JStr (p_product_type p)),
      (''vendor'', JStr (p_vendor p)),
      (''tags'', JStr (p_tags p)),
      (''variants'', JArr []),
      (''images'', JArr [])]"

text \<open>\<open>if product.images:\<close> is true of a non-empty list; then its first image is used.\<close>

definition search_dict :: "product \<Rightarrow> py_dict" where
  "search_dict p =
     (let d = add_search_variants (search_dict_init p) (p_variants p)
      in case p_images p of
           [] \<Rightarrow> d
         | img # _ \<Rightarrow> dict_set d ''image'' (JObj [(''src'', i_src img)]))"

fun search_loop :: "runtime \<Rightarrow> string \<Rightarrow> json list \<Rightarrow> product list \<Rightarrow> json list" where
  "search_loop rt query matched_products [] = matched_products"
| "search_loop rt query matched_products (p # ps) =
     (if product_matches rt query p
      then search_loop rt query (matched_products @ [JObj (search_dict p)]) ps
      else search_loop rt query matched_products ps)"

text \<open>
  The POST route hands over whatever JSON value sits under \<open>query\<close>. The fetch comes
  first; \<open>query.lower()\<close> on anything but a string then raises inside the \<open>try\<close>, and
  the function returns the empty list.
\<close>

definition search_products :: "runtime \<Rightarrow> client \<Rightarrow> json \<Rightarrow> json \<times> call list" where
  "search_products rt c query =
     (case product_find c (JInt 50) of
        Inl e \<Rightarrow> (JArr [], [ProductFind (JInt 50)])
      | Inr products \<Rightarrow>
          (case query of
             JStr q \<Rightarrow> (JArr (search_loop rt (py_lower rt q) [] products), [ProductFind (JInt 50)])
           | _ \<Rightarrow> (JArr [], [ProductFind (JInt 50)])))"

subsection \<open>\<open>get_store_info\<close>\<close>

definition shop_info :: "runtime \<Rightarrow> shop \<Rightarrow> py_dict" where
  "shop_info rt sh =
     [(''id'', s_id sh),
      (''name'', s_name sh),
      (''email'', s_email sh),
      (''domain'', s_domain sh),
      (''province'', s_province sh),
      (''country'', s_country sh),
      (''address1'', s_address1 sh),
      (''zip'', s_zip sh),
      (''city'', s_city sh),
      (''phone'', s_phone sh),
      (''created_at'', JStr (py_str rt (s_created_at sh))),
      (''shop_owner'', s_shop_owner sh),
      (''plan_name'', s_plan_name sh),
      (''has_storefront'', s_has_storefront sh),
      (''money_format'', s_money_format sh),
      (''weight_unit'', s_weight_unit sh),
      (''primary_locale'', s_primary_locale sh),
      (''country_name'', s_country_name sh),
      (''currency'', s_currency sh),
      (''timezone'', s_timezone sh)]"

definition get_store_info :: "runtime \<Rightarrow> client \<Rightarrow> json \<times> call list" where
  "get_store_info rt c =
     (case shop_current c of
        Inl e \<Rightarrow> (JObj [], [ShopCurrent])
      | Inr sh \<Rightarrow> (JObj (shop_info rt sh), [ShopCurrent]))"


section \<open>shopify\_mcp.py: the HTTP request handler\<close>

text \<open>
  A response is the status handed to \<open>_set_headers\<close> and the value handed to
  \<open>json.dumps\<close>; the headers are the same on every response. A handler method either
  writes a response or lets an exception escape; the calls made to the client are
  returned with either.
\<close>

record response =
  status :: nat
  body :: json

type_synonym outcome = "(py_exception + response) \<times> call list"

definition error_body :: "string \<Rightarrow> json" where
  "error_body msg = JObj [(''error'', JStr msg)]"

definition result_body :: "json \<Rightarrow> json" where
  "result_body result = JObj [(''result'', result)]"

subsection \<open>\<open>do_GET\<close>\<close>

text \<open>
  The request is what \<open>urlparse\<close> and \<open>parse_qs\<close> make of the request line: the path
  and a dictionary from parameter names to the lists of their values.
\<close>

record get_request =
  get_path :: string
  query_params :: "string \<Rightarrow> string list option"

text \<open>\<open>int(query_params.get('limit', ['10'])[0])\<close>\<close>

definition query_limit :: "runtime \<Rightarrow> (string \<Rightarrow> string list option) \<Rightarrow> py_exception + int" where
  "query_limit rt qp =
     (case (case qp ''limit'' of None \<Rightarrow> [''10''] | Some vs \<Rightarrow> vs) of
        [] \<Rightarrow> Inl IndexError
      | v # _ \<Rightarrow> py_int rt v)"

text \<open>\<open>query_params.get('q', [''])[0]\<close>\<close>

definition query_q :: "(string \<Rightarrow> string list option) \<Rightarrow> py_exception + string" where
  "query_q qp =
     (case (case qp ''q'' of None \<Rightarrow> [[]] | Some vs \<Rightarrow> vs) of
        [] \<Rightarrow> Inl IndexError
      | v # _ \<Rightarrow> Inr v)"

definition send_json :: "json \<times> call list \<Rightarrow> outcome" where
  "send_json r = (Inr \<lparr>status = 200, body = fst r\<rparr>, snd r)"

definition do_GET :: "runtime \<Rightarrow> client \<Rightarrow> get_request \<Rightarrow> outcome" where
  "do_GET rt c req =
     (let path = get_path req; qp = query_params req
      in if path = ''/health''
         then (Inr \<lparr>status = 200, body = JObj [(''status'', JStr ''ok'')]\<rparr>, [])
         else if py_startswith path ''/api/''
         then
           (let endpoint = py_replace ''/api/'' [] path
            in if endpoint = ''products''
               then (case query_limit rt qp of
                       Inl e \<Rightarrow> (Inl e, [])
                     | Inr limit \<Rightarrow> send_json (get_product_list rt c (JInt limit)))
               else if endpoint = ''customers''
               then (case query_limit rt qp of
                       Inl e \<Rightarrow> (Inl e, [])
                     | Inr limit \<Rightarrow> send_json (get_customer_list rt c (JInt limit)))
               else if endpoint = ''orders''
               then (case query_limit rt qp of
                       Inl e \<Rightarrow> (Inl e, [])
                     | Inr limit \<Rightarrow> send_json (get_order_list rt c (JInt limit)))
               else if endpoint = ''search''
               then (case query_q qp of
                       Inl e \<Rightarrow> (Inl e, [])
                     | Inr query \<Rightarrow> send_json (search_products rt c (JStr query)))
               else if endpoint = ''store''
               then send_json (get_store_info rt c)
               else (Inr \<lparr>status = 404, body = error_body ''Endpoint not found''\<rparr>, []))
         else (Inr \<lparr>status = 404, body = error_body ''Not found''\<rparr>, []))"

subsection \<open>\<open>do_POST\<close>\<close>

text \<open>
  The request is the path, the \<open>Content-Length\<close> header (\<open>None\<close> when the request has
  none) and what becomes of the body. Three statements come before the \<open>try\<close>: the
  header is converted with \<open>int\<close>, that many bytes are read, and the bytes are decoded
  as UTF-8; an exception of any of them leaves \<open>do_POST\<close>. The read refuses a length
  below -1 (\<open>ValueError\<close>) or outside the range of a C \<open>ssize_t\<close>, here of 64 bits
  (\<open>OverflowError\<close>). What the socket and the JSON decoder do is the \<open>payload\<close>:
  \<^item> \<open>Read_Raises e\<close>: the read or the decoding raises \<open>e\<close>, before the \<open>try\<close>;
  \<^item> \<open>Invalid_JSON\<close>: \<open>json.loads\<close> raises \<open>JSONDecodeError\<close>;
  \<^item> \<open>Loads_Raises msg\<close>: \<open>json.loads\<close> raises another exception, with this message;
  \<^item> \<open>Parsed v\<close>: \<open>json.loads\<close> returns \<open>v\<close>.
\<close>

datatype body_outcome =
    Read_Raises py_exception
  | Invalid_JSON
  | Loads_Raises string
  | Parsed json

record post_request =
  post_path :: string
  content_length :: "string option"
  payload :: body_outcome

definition ssize_max :: int where
  "ssize_max = 2 ^ 63 - 1"

definition header_int :: "runtime \<Rightarrow> string option \<Rightarrow> py_exception + int" where
  "header_int rt h =
     (case h of
        None \<Rightarrow> Inl TypeError
      | Some s \<Rightarrow> py_int rt s)"

definition send_result :: "json \<times> call list \<Rightarrow> outcome" where
  "send_result r = (Inr \<lparr>status = 200, body = result_body (fst r)\<rparr>, snd r)"

text \<open>The \<open>except Exception\<close> clause of the \<open>try\<close>, given \<open>str(e)\<close>.\<close>

definition server_error :: "string \<Rightarrow> outcome" where
  "server_error msg = (Inr \<lparr>status = 500, body = error_body (''Server error: '' @ msg)\<rparr>, [])"

text \<open>
  The chain of comparisons on the method, inside the \<open>try\<close>. The only exception that
  can occur in it is the \<open>AttributeError\<close> of \<open>params.get\<close>, which the \<open>except\<close> clause
  turns into a response.
\<close>

definition dispatch :: "runtime \<Rightarrow> client \<Rightarrow> json \<Rightarrow> json \<Rightarrow> outcome" where
  "dispatch rt c method params =
     (if method = JStr ''get_product_list''
      then (case py_get params ''limit'' (JInt 10) of
              Inl msg \<Rightarrow> server_error msg
            | Inr limit \<Rightarrow> send_result (get_product_list rt c limit))
      else if method = JStr ''get_customer_list''
      then (case py_get params ''limit'' (JInt 10) of
              Inl msg \<Rightarrow> server_error msg
            | Inr limit \<Rightarrow> send_result (get_customer_list rt c limit))
      else if method = JStr ''get_order_list''
      then (case py_get params ''limit'' (JInt 10) of
              Inl msg \<Rightarrow> server_error msg
            | Inr limit \<Rightarrow> send_result (get_order_list rt c limit))
      else if method = JStr ''search_products''
      then (case py_get params ''query'' (JStr []) of
              Inl msg \<Rightarrow> server_error msg
            | Inr query \<Rightarrow> send_result (search_products rt c query))
      else if method = JStr ''get_store_info''
      then send_result (get_store_info rt c)
      else (Inr \<lparr>status = 400, body = error_body (''Unknown method: '' @ py_str rt method)\<rparr>, []))"

definition do_POST :: "runtime \<Rightarrow> client \<Rightarrow> post_request \<Rightarrow> outcome" where
  "do_POST rt c req =
     (if post_path req = ''/mcp''
      then
        (case header_int rt (content_length req) of
           Inl e \<Rightarrow> (Inl e, [])
         | Inr n \<Rightarrow>
             if n < - ssize_max - 1 \<or> ssize_max < n then (Inl OverflowError, [])
             else if n < - 1 then (Inl ValueError, [])
             else
               (case payload req of
                  Read_Raises e \<Rightarrow> (Inl e, [])
                | Invalid_JSON \<Rightarrow>
                    (Inr \<lparr>status = 400, body = error_body ''Invalid JSON in request''\<rparr>, [])
                | Loads_Raises msg \<Rightarrow> server_error msg
                | Parsed request \<Rightarrow>
                    (case request of
                       JObj d \<Rightarrow>
                         (case map_of d ''method'' of
                            None \<Rightarrow>
                              (Inr \<lparr>status = 400, body = error_body ''Invalid MCP request format''\<rparr>, [])
                          | Some method \<Rightarrow>
                              dispatch rt c method
                                (case map_of d ''params'' of None \<Rightarrow> JObj [] | Some ps \<Rightarrow> ps))
                     | _ \<Rightarrow>
                         (Inr \<lparr>status = 400, body = error_body ''Invalid MCP request format''\<rparr>, []))))
      else (Inr \<lparr>status = 404, body = error_body ''Not found''\<rparr>, []))"

section \<open>shopify\_mcp\_fastmcp.py: the tools\<close>

text \<open>
  The functions under \<open>@mcp.tool()\<close>, with their declared, typed parameters. The bodies
  of the list and detail tools build their dictionaries with the same statements as
  \<open>get_product_list\<close>, \<open>get_customer_list\<close> and \<open>get_order_list\<close>.
\<close>

definition get_products :: "runtime \<Rightarrow> client \<Rightarrow> int \<Rightarrow> json \<times> call list" where
  "get_products rt c limit =
     (case product_find c (JInt limit) of
        Inl e \<Rightarrow> (JArr [], [ProductFind (JInt limit)])
      | Inr products \<Rightarrow> (JArr (product_loop rt [] products), [ProductFind (JInt limit)]))"

definition get_product_details :: "runtime \<Rightarrow> client \<Rightarrow> string \<Rightarrow> json \<times> call list" where
  "get_product_details rt c product_id =
     (case product_get c product_id of
        Inl e \<Rightarrow> (JObj [], [ProductGet product_id])
      | Inr p \<Rightarrow> (JObj (product_dict rt p), [ProductGet product_id]))"

definition get_customers :: "runtime \<Rightarrow> client \<Rightarrow> int \<Rightarrow> json \<times> call list" where
  "get_customers rt c limit =
     (case customer_find c (JInt limit) of
        Inl e \<Rightarrow> (JArr [], [CustomerFind (JInt limit)])
      | Inr customers \<Rightarrow> (JArr (customer_loop rt [] customers), [CustomerFind (JInt limit)]))"

definition get_customer_details :: "runtime \<Rightarrow> client \<Rightarrow> string \<Rightarrow> json \<times> call list" where
  "get_customer_details rt c customer_id =
     (case customer_get c customer_id of
        Inl e \<Rightarrow> (JObj [], [CustomerGet customer_id])
      | Inr cu \<Rightarrow> (JObj (customer_dict rt cu), [CustomerGet customer_id]))"

definition get_orders :: "runtime \<Rightarrow> client \<Rightarrow> int \<Rightarrow> json \<times> call list" where
  "get_orders rt c limit =
     (case order_find c (JInt limit) of
        Inl e \<Rightarrow> (JArr [], [OrderFind (JInt limit)])
      | Inr orders \<Rightarrow> (JArr (order_loop rt [] orders), [OrderFind (JInt limit)]))"

text \<open>
  The search tool: the loop of \<open>search_products\<close> with a test after each append that
  leaves the loop once the list holds \<open>limit\<close> dictionaries or more.
\<close>

fun search_loop_limit ::
  "runtime \<Rightarrow> int \<Rightarrow> string \<Rightarrow> json list \<Rightarrow> product list \<Rightarrow> json list" where
  "search_loop_limit rt limit query matched_products [] = matched_products"
| "search_loop_limit rt limit query matched_products (p # ps) =
     (if product_matches rt query p
      then (let matched = matched_products @ [JObj (search_dict p)]
            in if int (length matched) \<ge> limit then matched
               else search_loop_limit rt limit query matched ps)
      else search_loop_limit rt limit query matched_products ps)"

definition search_products_fastmcp ::
  "runtime \<Rightarrow> client \<Rightarrow> string \<Rightarrow> int \<Rightarrow> json \<times> call list" where
  "search_products_fastmcp rt c query limit =
     (case product_find c (JInt 50) of
        Inl e \<Rightarrow> (JArr [], [ProductFind (JInt 50)])
      | Inr products \<Rightarrow>
          (JArr (search_loop_limit rt limit (py_lower rt query) [] products),
           [ProductFind (JInt 50)]))"

definition get_store_info_fastmcp :: "runtime \<Rightarrow> client \<Rightarrow> json \<times> call list" where
  "get_store_info_fastmcp rt c =
     (case shop_current c of
        Inl e \<Rightarrow> (JObj [], [ShopCurrent])
      | Inr sh \<Rightarrow> (JObj (shop_info rt sh), [ShopCurrent]))"


section \<open>Fixtures\<close>

text \<open>
  Test doubles and a handful of records and requests, all of them ASCII. \<open>ascii_rt\<close> is
  a runtime for them: what it does outside ASCII is never asked for. \<open>fixture_client\<close>
  serves a fixed list of products, honours the limit it is given and finds a product by
  its id, and has one customer, one order and a shop; \<open>failing_client\<close> raises on every
  operation.
\<close>

definition ascii_rt :: runtime where
  "ascii_rt =
     \<lparr>str_lower = map lower_char, str_int = (\<lambda>s. Inl ValueError), str_repr = ascii_repr,
      float_repr = (\<lambda>f. ''nan'')\<rparr>"

definition plain_product :: "int \<Rightarrow> string \<Rightarrow> string \<Rightarrow> product" where
  "plain_product n title tags =
     \<lparr>p_id = JInt n, p_title = title, p_body_html = JNull, p_product_type = ''Gadget'',
      p_vendor = ''Acme'', p_tags = tags,
      p_created_at = JStr ''2023-01-01T00:00:00-05:00'',
      p_updated_at = JStr ''2023-01-02T00:00:00-05:00'',
      p_variants = [], p_images = []\<rparr>"

definition alpha_widget :: product where
  "alpha_widget =
     (plain_product 1 ''Alpha Widget'' ''blue'')
       \<lparr>p_variants :=
          [\<lparr>v_id = JInt 11, v_title = JStr ''Small'', v_price = JStr ''9.99'',
            v_sku = JStr ''AW-S'', v_inventory_quantity = JInt 4\<rparr>],
        p_images :=
          [\<lparr>i_id = JInt 21, i_src = JStr ''https://cdn.example/a1.png'', i_position = JInt 1\<rparr>,
           \<lparr>i_id = JInt 22, i_src = JStr ''https://cdn.example/a2.png'', i_position = JInt 2\<rparr>]\<rparr>"

definition beta_widget :: product where
  "beta_widget = plain_product 2 ''Beta Widget'' []"

definition gizmo :: product where
  "gizmo = plain_product 3 ''Gizmo'' ''Clearance, RED''"

definition five_products :: "product list" where
  "five_products =
     [alpha_widget, beta_widget, gizmo, plain_product 4 ''Doohickey'' [], plain_product 5 ''Thing'' []]"

definition has_id :: "string \<Rightarrow> product \<Rightarrow> bool" where
  "has_id i p = (case p_id p of JInt n \<Rightarrow> dec_int n = i | JStr s \<Rightarrow> s = i | _ \<Rightarrow> False)"

definition a_customer :: customer where
  "a_customer =
     \<lparr>c_id = JInt 31, c_email = JStr ''ada@example.com'', c_first_name = JStr ''Ada'',
      c_last_name = JStr ''Byron'', c_orders_count = JInt 2, c_total_spent = JStr ''19.98'',
      c_created_at = JStr ''2023-02-01T00:00:00-05:00'', c_addresses = None\<rparr>"

definition an_order :: order where
  "an_order =
     \<lparr>o_id = JInt 41, o_order_number = JInt 1001, o_email = JStr ''ada@example.com'',
      o_created_at = JStr ''2023-03-01T00:00:00-05:00'', o_total_price = JStr ''9.99'',
      o_subtotal_price = JStr ''9.99'', o_total_tax = JStr ''0.00'', o_currency = JStr ''USD'',
      o_financial_status = JStr ''paid'', o_fulfillment_status = JNull,
      o_customer = None, o_shipping_address = None,
      o_line_items =
        [\<lparr>li_id = JInt 51, li_title = JStr ''Alpha Widget'', li_quantity = JInt 1,
          li_price = JStr ''9.99'', li_sku = JStr ''AW-S'', li_product_id = JInt 1,
          li_variant_id = JInt 11\<rparr>]\<rparr>"

definition the_shop :: shop where
  "the_shop =
     \<lparr>s_id = JInt 61, s_name = JStr ''Acme'', s_email = JStr ''shop@example.com'',
      s_domain = JStr ''acme.example'', s_province = JStr ''Ontario'', s_country = JStr ''CA'',
      s_address1 = JStr ''1 Main St'', s_zip = JStr ''K1A 0B1'', s_city = JStr ''Ottawa'',
      s_phone = JNull, s_created_at = JStr ''2022-01-01T00:00:00-05:00'',
      s_shop_owner = JStr ''Ada Byron'', s_plan_name = JStr ''basic'',
      s_has_storefront = JBool True, s_money_format = JStr ''${{amount}}'',
      s_weight_unit = JStr ''kg'', s_primary_locale = JStr ''en'',
      s_country_name = JStr ''Canada'', s_currency = JStr ''CAD'',
      s_timezone = JStr ''(GMT-05:00) Eastern Time''\<rparr>"

definition fixture_client :: "product list \<Rightarrow> client" where
  "fixture_client ps =
     \<lparr>product_find = (\<lambda>limit. case limit of
                                  JInt n \<Rightarrow> Inr (take (nat n) ps)
                                | _ \<Rightarrow> Inl (RemoteError ''Bad Request'')),
      product_get = (\<lambda>i. case filter (has_id i) ps of
                              p # _ \<Rightarrow> Inr p
                            | [] \<Rightarrow> Inl (RemoteError ''Not Found'')),
      customer_find = (\<lambda>limit. Inr [a_customer]),
      customer_get = (\<lambda>i. Inr a_customer),
      order_find = (\<lambda>limit. Inr [an_order]),
      shop_current = Inr the_shop\<rparr>"

definition failing_client :: client where
  "failing_client =
     \<lparr>product_find = (\<lambda>limit. Inl (RemoteError ''Connection refused'')),
      product_get = (\<lambda>i. Inl (RemoteError ''Connection refused'')),
      customer_find = (\<lambda>limit. Inl (RemoteError ''Connection refused'')),
      customer_get = (\<lambda>i. Inl (RemoteError ''Connection refused'')),
      order_find = (\<lambda>limit. Inl (RemoteError ''Connection refused'')),
      shop_current = Inl (RemoteError ''Connection refused'')\<rparr>"

definition ascii_product :: "product \<Rightarrow> bool" where
  "ascii_product p =
     (is_ascii (p_title p) \<and> is_ascii (p_vendor p) \<and> is_ascii (p_product_type p) \<and>
      is_ascii (p_tags p))"

text \<open>
  A GET of a path without a query string, and with a limit. A POST to
  \<open>/mcp\<close> whose body is the JSON object with the given method and, when given, parameters,
  padded with blanks to 64 bytes; and the same POST without its \<open>Content-Length\<close> header.
\<close>

definition api_get :: "string \<Rightarrow> get_request" where
  "api_get path = \<lparr>get_path = path, query_params = (\<lambda>k. None)\<rparr>"

definition limit_get :: "string \<Rightarrow> string \<Rightarrow> get_request" where
  "limit_get path limit = \<lparr>get_path = path, query_params = [''limit'' \<mapsto> [limit]]\<rparr>"

definition mcp_post :: "string \<Rightarrow> json option \<Rightarrow> post_request" where
  "mcp_post method params =
     \<lparr>post_path = ''/mcp'', content_length = Some ''64'',
      payload = Parsed (JObj ((''method'', JStr method) #
                              (case params of None \<Rightarrow> [] | Some ps \<Rightarrow> [(''params'', ps)])))\<rparr>"

definition headerless_post :: post_request where
  "headerless_post = (mcp_post ''get_product_details'' None)\<lparr>content_length := None\<rparr>"



section \<open>Facts about the built-ins\<close>

lemma py_in_Nil: "py_in [] s"
  by (induction s) (simp_all add: py_startswith_def)

lemma py_startswith_iff: "py_startswith s p \<longleftrightarrow> (\<exists>suf. s = p @ suf)"
proof
  assume "py_startswith s p"
  then have "s = p @ drop (length p) s"
    by (metis append_take_drop_id py_startswith_def)
  then show "\<exists>suf. s = p @ suf" ..
next
  assume "\<exists>suf. s = p @ suf"
  then show "py_startswith s p" by (auto simp: py_startswith_def)
qed

text \<open>\<open>q in s\<close> is the substring relation.\<close>

lemma py_in_iff: "py_in q s \<longleftrightarrow> (\<exists>pre suf. s = pre @ q @ suf)"
proof (induction s)
  case Nil
  show ?case by auto
next
  case (Cons c cs)
  show ?case
  proof
    assume "py_in q (c # cs)"
    then consider "py_startswith (c # cs) q" | "py_in q cs" by auto
    then show "\<exists>pre suf. c # cs = pre @ q @ suf"
    proof cases
      case 1
      then obtain suf where "c # cs = q @ suf" by (auto simp: py_startswith_iff)
      then have "c # cs = [] @ q @ suf" by simp
      then show ?thesis by blast
    next
      case 2
      then obtain pre suf where "cs = pre @ q @ suf" using Cons.IH by auto
      then have "c # cs = (c # pre) @ q @ suf" by simp
      then show ?thesis by blast
    qed
  next
    assume "\<exists>pre suf. c # cs = pre @ q @ suf"
    then obtain pre suf where eq: "c # cs = pre @ q @ suf" by auto
    show "py_in q (c # cs)"
    proof (cases pre)
      case Nil
      with eq have "py_startswith (c # cs) q" by (auto simp: py_startswith_iff)
      then show ?thesis by simp
    next
      case (Cons a pre')
      with eq have "cs = pre' @ q @ suf" by simp
      then have "py_in q cs" using Cons.IH by blast
      then show ?thesis by simp
    qed
  qed
qed

lemma map_of_dict_set_same: "map_of (dict_set d k v) k = Some v"
  by (induction d) auto

lemma map_of_dict_set_other: "k' \<noteq> k \<Longrightarrow> map_of (dict_set d k v) k' = map_of d k'"
  by (induction d) auto

lemma dict_set_twice: "dict_set (dict_set d k v) k w = dict_set d k w"
  by (induction d) auto

lemma dict_set_same: "map_of d k = Some v \<Longrightarrow> dict_set d k v = d"
  by (induction d) (auto split: if_splits)

lemma dict_append_eq:
  "map_of d k = Some (JArr xs) \<Longrightarrow> dict_append d k x = dict_set d k (JArr (xs @ [x]))"
  by (simp add: dict_append_def)

section \<open>The loops in closed form\<close>

text \<open>
  Each appending loop leaves under its key the list that was there followed by the
  dictionaries of the sub-records, in the order of the sub-records.
\<close>

lemma add_variants_eq:
  "map_of d ''variants'' = Some (JArr xs) \<Longrightarrow>
   add_variants d vs = dict_set d ''variants'' (JArr (xs @ map variant_dict vs))"
proof (induction vs arbitrary: d xs)
  case Nil
  then show ?case by (simp add: dict_set_same)
next
  case (Cons v vs)
  then show ?case
    by (simp add: dict_append_eq map_of_dict_set_same dict_set_twice)
qed

lemma add_images_eq:
  "map_of d ''images'' = Some (JArr xs) \<Longrightarrow>
   add_images d is = dict_set d ''images'' (JArr (xs @ map image_dict is))"
proof (induction "is" arbitrary: d xs)
  case Nil
  then show ?case by (simp add: dict_set_same)
next
  case (Cons i "is")
  then show ?case
    by (simp add: dict_append_eq map_of_dict_set_same dict_set_twice)
qed



lemma add_search_variants_eq:
  "map_of d ''variants'' = Some (JArr xs) \<Longrightarrow>
   add_search_variants d vs = dict_set d ''variants'' (JArr (xs @ map search_variant_dict vs))"
proof (induction vs arbitrary: d xs)
  case Nil
  then show ?case by (simp add: dict_set_same)
next
  case (Cons v vs)
  then show ?case
    by (simp add: dict_append_eq map_of_dict_set_same dict_set_twice)
qed

lemma product_dict_eq:
  "product_dict rt p =
     [(''id'', p_id p),
      (''title'', JStr (p_title p)),
      (''description'', p_body_html p),
      (''product_type'', JStr (p_product_type p)),
      (''vendor'', JStr (p_vendor p)),
      (''tags'', JStr (p_tags p)),
      (''created_at'', JStr (py_str rt (p_created_at p))),
      (''updated_at'', JStr (py_str rt (p_updated_at p))),
      (''variants'', JArr (map variant_dict (p_variants p))),
      (''images'', JArr (map image_dict (p_images p)))]"
proof -
  have v: "map_of (product_dict_init rt p) ''variants'' = Some (JArr [])"
    by (simp add: product_dict_init_def)
  have i: "map_of (dict_set (product_dict_init rt p) ''variants'' (JArr (map variant_dict (p_variants p))))
             ''images'' = Some (JArr [])"
    by (simp add: product_dict_init_def)
  show ?thesis
    unfolding product_dict_def add_variants_eq [OF v] append_Nil add_images_eq [OF i]
    by (simp add: product_dict_init_def)
qed



text \<open>
  The dictionary of a search hit: eight keys, \<open>images\<close> always empty, and \<open>image\<close>
  last when the product has an image.
\<close>

lemma search_dict_eq:
  "search_dict p =
     [(''id'', p_id p),
      (''title'', JStr (p_title p)),
      (''description'', p_body_html p),
      (''product_type'', JStr (p_product_type p)),
      (''vendor'', JStr (p_vendor p)),
      (''tags'', JStr (p_tags p)),
      (''variants'', JArr (map search_variant_dict (p_variants p))),
      (''images'', JArr [])]
     @ (case p_images p of [] \<Rightarrow> [] | img # _ \<Rightarrow> [(''image'', JObj [(''src'', i_src img)])])"
proof -
  have v: "map_of (search_dict_init p) ''variants'' = Some (JArr [])"
    by (simp add: search_dict_init_def)
  show ?thesis
    unfolding search_dict_def Let_def add_search_variants_eq [OF v] append_Nil
    by (simp add: search_dict_init_def split: list.splits)
qed

lemma product_loop_eq: "product_loop rt acc ps = acc @ map (\<lambda>p. JObj (product_dict rt p)) ps"
  by (induction ps arbitrary: acc) simp_all

lemma customer_loop_eq:
  "customer_loop rt acc cus = acc @ map (\<lambda>cu. JObj (customer_dict rt cu)) cus"
  by (induction cus arbitrary: acc) simp_all

lemma order_loop_eq: "order_loop rt acc ords = acc @ map (\<lambda>ord. JObj (order_dict rt ord)) ords"
  by (induction ords arbitrary: acc) simp_all

lemma search_loop_eq:
  "search_loop rt query acc ps =
     acc @ map (\<lambda>p. JObj (search_dict p)) (filter (product_matches rt query) ps)"
  by (induction ps arbitrary: acc) simp_all

text \<open>
  The loop of the search tool keeps the matches up to the point where the list reaches
  \<open>limit\<close> entries; as the test comes after the append, at least one match is kept.
\<close>

lemma search_loop_limit_eq:
  "search_loop_limit rt limit query acc ps =
     acc @ take (nat (max 1 (limit - int (length acc))))
             (map (\<lambda>p. JObj (search_dict p)) (filter (product_matches rt query) ps))"
proof (induction ps arbitrary: acc)
  case Nil
  show ?case by simp
next
  case (Cons p ps)
  show ?case
  proof (cases "product_matches rt query p")
    case False
    then show ?thesis using Cons.IH [of acc] by simp
  next
    case True
    show ?thesis
    proof (cases "int (length acc) + 1 \<ge> limit")
      case stop: True
      then have "nat (max 1 (limit - int (length acc))) = 1" by simp
      with True stop show ?thesis by (simp add: Let_def)
    next
      case go: False
      then obtain k where k: "nat (max 1 (limit - int (length acc))) = Suc k"
        and k': "nat (max 1 (limit - int (length (acc @ [JObj (search_dict p)])))) = k"
        by (cases "nat (max 1 (limit - int (length acc)))") (auto simp: max_def split: if_splits)
      from True go show ?thesis
        using Cons.IH [of "acc @ [JObj (search_dict p)]"] k k'
        by (simp add: Let_def)
    qed
  qed
qed


section \<open>ASCII text\<close>

text \<open>On ASCII text the runtime is not consulted.\<close>

lemma py_lower_ascii: "is_ascii s \<Longrightarrow> py_lower rt s = map lower_char s"
  by (simp add: py_lower_def)

lemma py_lower_Nil: "py_lower rt [] = []"
  by (simp add: py_lower_def is_ascii_def)

lemma py_int_ascii: "is_ascii s \<Longrightarrow> py_int rt s = ascii_int s"
  by (simp add: py_int_def)

lemma product_matches_ascii:
  "ascii_product p \<Longrightarrow> product_matches rt q p = product_matches ascii_rt q p"
  by (simp add: product_matches_def ascii_product_def py_lower_ascii)

lemma filter_matches_ascii:
  "list_all ascii_product ps \<Longrightarrow>
   filter (product_matches rt q) ps = filter (product_matches ascii_rt q) ps"
  by (induction ps) (simp_all add: product_matches_ascii [where rt = rt])

lemma py_int_10: "py_int rt ''10'' = Inr 10"
proof -
  have "is_ascii ''10''" by code_simp
  moreover have "ascii_int ''10'' = Inr 10" by code_simp
  ultimately show ?thesis by (simp add: py_int_ascii)
qed

lemma py_int_abc: "py_int rt ''abc'' = Inl ValueError"
proof -
  have "is_ascii ''abc''" by code_simp
  moreover have "ascii_int ''abc'' = Inl ValueError" by code_simp
  ultimately show ?thesis by (simp add: py_int_ascii)
qed


lemma py_int_64: "py_int rt ''64'' = Inr 64"
proof -
  have "is_ascii ''64''" by code_simp
  moreover have "ascii_int ''64'' = Inr 64" by code_simp
  ultimately show ?thesis by (simp add: py_int_ascii)
qed

section \<open>The search in closed form\<close>

lemma product_matches_Nil: "product_matches rt [] p"
  by (simp add: product_matches_def py_in_Nil)

lemma product_matches_iff:
  "product_matches rt q p \<longleftrightarrow>
     (\<exists>pre suf. py_lower rt (p_title p) = pre @ q @ suf \<or>
                 py_lower rt (p_vendor p) = pre @ q @ suf \<or>
                 py_lower rt (p_product_type p) = pre @ q @ suf \<or>
                 py_lower rt (p_tags p) = pre @ q @ suf)"
  unfolding product_matches_def py_in_iff by blast

lemma search_products_eq:
  "product_find c (JInt 50) = Inr ps \<Longrightarrow>
   search_products rt c (JStr q) =
     (JArr (map (\<lambda>p. JObj (search_dict p)) (filter (product_matches rt (py_lower rt q)) ps)),
      [ProductFind (JInt 50)])"
  by (simp add: search_products_def search_loop_eq)

lemma search_products_fastmcp_eq:
  "product_find c (JInt 50) = Inr ps \<Longrightarrow>
   search_products_fastmcp rt c q limit =
     (JArr (take (nat (max 1 limit))
              (map (\<lambda>p. JObj (search_dict p)) (filter (product_matches rt (py_lower rt q)) ps))),
      [ProductFind (JInt 50)])"
  by (simp add: search_products_fastmcp_def search_loop_limit_eq)

lemma get_product_list_eq:
  "product_find c limit = Inr ps \<Longrightarrow>
   get_product_list rt c limit = (JArr (map (\<lambda>p. JObj (product_dict rt p)) ps), [ProductFind limit])"
  by (simp add: get_product_list_def product_loop_eq)

lemma get_products_eq:
  "product_find c (JInt n) = Inr ps \<Longrightarrow>
   get_products rt c n = (JArr (map (\<lambda>p. JObj (product_dict rt p)) ps), [ProductFind (JInt n)])"
  by (simp add: get_products_def product_loop_eq)

lemma fixture_find: "product_find (fixture_client ps) (JInt n) = Inr (take (nat n) ps)"
  by (simp add: fixture_client_def)

lemma widgets_ascii: "list_all ascii_product [alpha_widget, beta_widget, gizmo]"
  by code_simp

lemma widget_filter:
  "filter (product_matches rt (py_lower rt ''widget'')) [alpha_widget, beta_widget]
     = [alpha_widget, beta_widget]"
proof -
  have q: "py_lower rt ''widget'' = ''widget''"
  proof -
    have "is_ascii ''widget''" by code_simp
    moreover have "map lower_char ''widget'' = ''widget''" by code_simp
    ultimately show ?thesis by (simp add: py_lower_ascii)
  qed
  have a: "list_all ascii_product [alpha_widget, beta_widget]"
    using widgets_ascii by simp
  have "filter (product_matches ascii_rt ''widget'') [alpha_widget, beta_widget]
          = [alpha_widget, beta_widget]"
    by code_simp
  then show ?thesis
    unfolding q filter_matches_ascii [OF a, of rt] .
qed

section \<open>The routes\<close>

text \<open>The parts of \<open>do_GET\<close> and \<open>do_POST\<close>, route by route.\<close>

lemma endpoints:
  "py_replace ''/api/'' [] ''/api/products'' = ''products''"
  "py_replace ''/api/'' [] ''/api/customers'' = ''customers''"
  "py_replace ''/api/'' [] ''/api/orders'' = ''orders''"
  "py_replace ''/api/'' [] ''/api/search'' = ''search''"
  "py_replace ''/api/'' [] ''/api/store'' = ''store''"
  by code_simp+

lemma do_GET_products:
  "get_path req = ''/api/products'' \<Longrightarrow>
   do_GET rt c req =
     (case query_limit rt (query_params req) of
        Inl e \<Rightarrow> (Inl e, [])
      | Inr limit \<Rightarrow> send_json (get_product_list rt c (JInt limit)))"
  by (simp add: do_GET_def py_startswith_def endpoints)

lemma do_GET_customers:
  "get_path req = ''/api/customers'' \<Longrightarrow>
   do_GET rt c req =
     (case query_limit rt (query_params req) of
        Inl e \<Rightarrow> (Inl e, [])
      | Inr limit \<Rightarrow> send_json (get_customer_list rt c (JInt limit)))"
  by (simp add: do_GET_def py_startswith_def endpoints)

lemma do_GET_orders:
  "get_path req = ''/api/orders'' \<Longrightarrow>
   do_GET rt c req =
     (case query_limit rt (query_params req) of
        Inl e \<Rightarrow> (Inl e, [])
      | Inr limit \<Rightarrow> send_json (get_order_list rt c (JInt limit)))"
  by (simp add: do_GET_def py_startswith_def endpoints)

lemma do_GET_search:
  "get_path req = ''/api/search'' \<Longrightarrow>
   do_GET rt c req =
     (case query_q (query_params req) of
        Inl e \<Rightarrow> (Inl e, [])
      | Inr query \<Rightarrow> send_json (search_products rt c (JStr query)))"
  by (simp add: do_GET_def py_startswith_def endpoints)

lemma do_GET_store:
  "get_path req = ''/api/store'' \<Longrightarrow> do_GET rt c req = send_json (get_store_info rt c)"
  by (simp add: do_GET_def py_startswith_def endpoints)

lemma query_limit_default: "qp ''limit'' = None \<Longrightarrow> query_limit rt qp = Inr 10"
  by (simp add: query_limit_def py_int_10)

lemma query_limit_given: "qp ''limit'' = Some (s # ss) \<Longrightarrow> query_limit rt qp = py_int rt s"
  by (simp add: query_limit_def)

lemma query_q_default: "qp ''q'' = None \<Longrightarrow> query_q qp = Inr []"
  by (simp add: query_q_def)

lemma do_POST_dispatch:
  "post_path req = ''/mcp'' \<Longrightarrow> header_int rt (content_length req) = Inr n \<Longrightarrow>
   - 1 \<le> n \<Longrightarrow> n \<le> ssize_max \<Longrightarrow> payload req = Parsed (JObj d) \<Longrightarrow>
   map_of d ''method'' = Some m \<Longrightarrow>
   do_POST rt c req =
     dispatch rt c m (case map_of d ''params'' of None \<Rightarrow> JObj [] | Some ps \<Rightarrow> ps)"
proof -
  assume a: "post_path req = ''/mcp''" "header_int rt (content_length req) = Inr n"
    "- 1 \<le> n" "n \<le> ssize_max" "payload req = Parsed (JObj d)"
    "map_of d ''method'' = Some m"
  have "0 \<le> ssize_max" by (simp add: ssize_max_def)
  with a have r: "\<not> (n < - ssize_max - 1 \<or> ssize_max < n)" "\<not> n < - 1" by auto
  show ?thesis
    unfolding do_POST_def using a r by (simp del: not_less)
qed

lemma py_get_dict:
  "py_get (JObj d) k dflt = Inr (case map_of d k of Some v \<Rightarrow> v | None \<Rightarrow> dflt)"
  by (simp add: py_get_def)

lemma mcp_post_reaches:
  "post_path (mcp_post method params) = ''/mcp''"
  "header_int rt (content_length (mcp_post method params)) = Inr 64"
  "payload (mcp_post method params)
     = Parsed (JObj ((''method'', JStr method) #
                     (case params of None \<Rightarrow> [] | Some ps \<Rightarrow> [(''params'', ps)])))"
  by (simp_all add: mcp_post_def header_int_def py_int_64)

lemma length_64: "- 1 \<le> (64::int)" "(64::int) \<le> ssize_max"
  by (simp_all add: ssize_max_def)

lemma dispatch_unknown:
  "m \<notin> {JStr ''get_product_list'', JStr ''get_customer_list'', JStr ''get_order_list'',
          JStr ''search_products'', JStr ''get_store_info''} \<Longrightarrow>
   dispatch rt c m ps =
     (Inr \<lparr>status = 400, body = error_body (''Unknown method: '' @ py_str rt m)\<rparr>, [])"
  by (simp add: dispatch_def)

lemma do_GET_unknown:
  "py_startswith (get_path req) ''/api/'' \<Longrightarrow>
   py_replace ''/api/'' [] (get_path req)
     \<notin> {''products'', ''customers'', ''orders'', ''search'', ''store''} \<Longrightarrow>
   do_GET rt c req = (Inr \<lparr>status = 404, body = error_body ''Endpoint not found''\<rparr>, [])"
  by (auto simp: do_GET_def Let_def py_startswith_def)

section \<open>The fixtures\<close>

lemma failing_client_raises:
  "product_find failing_client limit = Inl (RemoteError ''Connection refused'')"
  "product_get failing_client i = Inl (RemoteError ''Connection refused'')"
  "customer_find failing_client limit = Inl (RemoteError ''Connection refused'')"
  "customer_get failing_client i = Inl (RemoteError ''Connection refused'')"
  "order_find failing_client limit = Inl (RemoteError ''Connection refused'')"
  "shop_current failing_client = Inl (RemoteError ''Connection refused'')"
  by (simp_all add: failing_client_def)

lemma api_get_parts:
  "get_path (api_get path) = path"
  "query_limit rt (query_params (api_get path)) = Inr 10"
  "query_q (query_params (api_get path)) = Inr []"
  by (simp_all add: api_get_def query_limit_default query_q_default)

lemma mcp_post_no_params:
  "map_of [(''method'', JStr method)] ''method'' = Some (JStr method)"
  "(case map_of [(''method'', JStr method)] ''params'' of None \<Rightarrow> JObj [] | Some ps \<Rightarrow> ps) = JObj []"
  "(case map_of ([] :: py_dict) ''limit'' of None \<Rightarrow> JInt 10 | Some v \<Rightarrow> v) = JInt 10"
  "payload (mcp_post method None) = Parsed (JObj [(''method'', JStr method)])"
  by (simp_all add: mcp_post_def)

lemma fixture_records:
  "product_get (fixture_client five_products) ''2'' = Inr beta_widget"
  "customer_find (fixture_client five_products) limit = Inr [a_customer]"
  "customer_get (fixture_client five_products) i = Inr a_customer"
  "order_find (fixture_client five_products) limit = Inr [an_order]"
  "shop_current (fixture_client five_products) = Inr the_shop"
proof -
  have "filter (has_id ''2'') five_products = [beta_widget]"
    by code_simp
  then show "product_get (fixture_client five_products) ''2'' = Inr beta_widget"
    by (simp add: fixture_client_def)
qed (simp_all add: fixture_client_def)

lemma fixture_three:
  "product_find (fixture_client five_products) (JInt 3) = Inr [alpha_widget, beta_widget, gizmo]"
  using fixture_find [of five_products 3] by (simp add: five_products_def)

lemma fixture_fifty:
  "product_find (fixture_client five_products) (JInt 50) = Inr five_products"
  using fixture_find [of five_products 50] by (simp add: five_products_def)

lemma five_filter:
  "filter (product_matches ascii_rt (py_lower ascii_rt ''WIDGET'')) five_products
     = [alpha_widget, beta_widget]"
  by code_simp


lemma mcp_post_params:
  "map_of [(''method'', JStr method), (''params'', ps)] ''method'' = Some (JStr method)"
  "(case map_of [(''method'', JStr method), (''params'', ps)] ''params'' of
      None \<Rightarrow> JObj [] | Some ps \<Rightarrow> ps) = ps"
  "payload (mcp_post method (Some ps)) = Parsed (JObj [(''method'', JStr method), (''params'', ps)])"
  by (simp_all add: mcp_post_def)



section \<open>Search (C1)\<close>

text \<open>
  C1, as amended. Both searches ask the client for 50 products, whatever the query and the
  limit. When the client returns a working set, the search of the HTTP server returns
  the dictionaries of exactly the products whose lower-cased title, vendor, product type
  or tags contain the lower-cased query, in the order of the working set; the search
  tool returns the first \<open>limit\<close> of these when \<open>limit\<close> is at least 1.
\<close>

theorem search_products_matches:
  "product_find c (JInt 50) = Inr ps \<Longrightarrow>
   search_products rt c (JStr q) =
     (JArr (map (\<lambda>p. JObj (search_dict p)) (filter (product_matches rt (py_lower rt q)) ps)),
      [ProductFind (JInt 50)]) \<and>
   (1 \<le> limit \<longrightarrow>
      search_products_fastmcp rt c q limit =
        (JArr (take (nat limit)
                 (map (\<lambda>p. JObj (search_dict p)) (filter (product_matches rt (py_lower rt q)) ps))),
         [ProductFind (JInt 50)])) \<and>
   (\<forall>p. product_matches rt (py_lower rt q) p \<longleftrightarrow>
      (\<exists>pre suf. py_lower rt (p_title p) = pre @ py_lower rt q @ suf \<or>
                  py_lower rt (p_vendor p) = pre @ py_lower rt q @ suf \<or>
                  py_lower rt (p_product_type p) = pre @ py_lower rt q @ suf \<or>
                  py_lower rt (p_tags p) = pre @ py_lower rt q @ suf)) \<and>
   snd (search_products rt c query) = [ProductFind (JInt 50)] \<and>
   snd (search_products_fastmcp rt c q' limit') = [ProductFind (JInt 50)]"
proof (intro conjI impI allI)
  assume find: "product_find c (JInt 50) = Inr ps"
  show "search_products rt c (JStr q) =
     (JArr (map (\<lambda>p. JObj (search_dict p)) (filter (product_matches rt (py_lower rt q)) ps)),
      [ProductFind (JInt 50)])"
    by (rule search_products_eq [OF find])
  show "search_products_fastmcp rt c q limit =
        (JArr (take (nat limit)
                 (map (\<lambda>p. JObj (search_dict p)) (filter (product_matches rt (py_lower rt q)) ps))),
         [ProductFind (JInt 50)])" if "1 \<le> limit"
    using that search_products_fastmcp_eq [OF find, of rt q limit] by (simp add: max_def)
  show "snd (search_products rt c query) = [ProductFind (JInt 50)]"
    by (simp add: search_products_def split: sum.splits json.splits)
  show "snd (search_products_fastmcp rt c q' limit') = [ProductFind (JInt 50)]"
    by (simp add: search_products_fastmcp_def split: sum.splits)
next
  fix p
  show "product_matches rt (py_lower rt q) p \<longleftrightarrow>
      (\<exists>pre suf. py_lower rt (p_title p) = pre @ py_lower rt q @ suf \<or>
                  py_lower rt (p_vendor p) = pre @ py_lower rt q @ suf \<or>
                  py_lower rt (p_product_type p) = pre @ py_lower rt q @ suf \<or>
                  py_lower rt (p_tags p) = pre @ py_lower rt q @ suf)"
    by (rule product_matches_iff)
qed

text \<open>The theorem at a working set of three, two of which match \<open>WIDGET\<close>.\<close>

lemma three_filter:
  "filter (product_matches ascii_rt (py_lower ascii_rt ''WIDGET'')) [alpha_widget, beta_widget, gizmo]
     = [alpha_widget, beta_widget]"
  by code_simp

theorem search_products_matches_witness:
  "product_find (fixture_client [alpha_widget, beta_widget, gizmo]) (JInt 50)
     = Inr [alpha_widget, beta_widget, gizmo] \<and>
   (1::int) \<le> 1 \<and>
   search_products ascii_rt (fixture_client [alpha_widget, beta_widget, gizmo]) (JStr ''WIDGET'')
     = (JArr [JObj (search_dict alpha_widget), JObj (search_dict beta_widget)],
        [ProductFind (JInt 50)]) \<and>
   search_products_fastmcp ascii_rt (fixture_client [alpha_widget, beta_widget, gizmo]) ''WIDGET'' 1
     = (JArr [JObj (search_dict alpha_widget)], [ProductFind (JInt 50)])"
proof -
  let ?ps = "[alpha_widget, beta_widget, gizmo]"
  have find: "product_find (fixture_client ?ps) (JInt 50) = Inr ?ps"
    by (simp add: fixture_client_def)
  note inst = search_products_matches
    [OF find, where rt = ascii_rt and q = "''WIDGET''" and limit = 1, unfolded three_filter]
  from inst have a: "search_products ascii_rt (fixture_client ?ps) (JStr ''WIDGET'')
      = (JArr [JObj (search_dict alpha_widget), JObj (search_dict beta_widget)],
         [ProductFind (JInt 50)])"
    by simp
  from inst have b: "search_products_fastmcp ascii_rt (fixture_client ?ps) ''WIDGET'' 1
      = (JArr [JObj (search_dict alpha_widget)], [ProductFind (JInt 50)])"
    by simp
  from find a b show ?thesis by simp
qed

text \<open>
  C1 as stated fails on the search tool: with limit 1 and two matching products, the
  second product matches the query and is not in the result.
\<close>

theorem search_products_fastmcp_drops_match:
  "product_find (fixture_client [alpha_widget, beta_widget]) (JInt 50) = Inr [alpha_widget, beta_widget] \<and>
   product_matches ascii_rt (py_lower ascii_rt ''widget'') beta_widget \<and>
   fst (search_products_fastmcp ascii_rt (fixture_client [alpha_widget, beta_widget]) ''widget'' 1)
     = JArr [JObj (search_dict alpha_widget)] \<and>
   JObj (search_dict beta_widget) \<notin> set [JObj (search_dict alpha_widget)]"
proof (intro conjI)
  show find: "product_find (fixture_client [alpha_widget, beta_widget]) (JInt 50) = Inr [alpha_widget, beta_widget]"
    by (simp add: fixture_client_def)
  show "product_matches ascii_rt (py_lower ascii_rt ''widget'') beta_widget"
    by code_simp
  show "fst (search_products_fastmcp ascii_rt (fixture_client [alpha_widget, beta_widget]) ''widget'' 1)
     = JArr [JObj (search_dict alpha_widget)]"
    using search_products_fastmcp_eq [OF find, of ascii_rt "''widget''" 1, unfolded widget_filter]
    by simp
  show "JObj (search_dict beta_widget) \<notin> set [JObj (search_dict alpha_widget)]"
    by (simp add: search_dict_eq alpha_widget_def beta_widget_def plain_product_def)
qed


section \<open>Errors of the remote client (C2)\<close>

lemma raise_in_get_product_list:
  "product_find c limit = Inl e \<Longrightarrow> get_product_list rt c limit = (JArr [], [ProductFind limit])"
  by (simp add: get_product_list_def)

lemma raise_in_get_customer_list:
  "customer_find c limit = Inl e \<Longrightarrow> get_customer_list rt c limit = (JArr [], [CustomerFind limit])"
  by (simp add: get_customer_list_def)

lemma raise_in_get_order_list:
  "order_find c limit = Inl e \<Longrightarrow> get_order_list rt c limit = (JArr [], [OrderFind limit])"
  by (simp add: get_order_list_def)

lemma raise_in_search_products:
  "product_find c (JInt 50) = Inl e \<Longrightarrow>
   search_products rt c query = (JArr [], [ProductFind (JInt 50)])"
  by (simp add: search_products_def)

lemma raise_in_get_store_info:
  "shop_current c = Inl e \<Longrightarrow> get_store_info rt c = (JObj [], [ShopCurrent])"
  by (simp add: get_store_info_def)

text \<open>
  C2, as amended. An error the remote client raises is caught inside the function that
  made the call, which then returns its empty value: the empty list from the list and
  search functions, the empty dictionary from the detail and store functions. The
  router knows nothing of it: the GET route answers 200 with the empty value as the
  payload, the POST route answers 200 with the empty value under \<open>result\<close>.
\<close>

theorem client_errors_become_empty_results:
  "(product_find c limit = Inl e \<longrightarrow> get_product_list rt c limit = (JArr [], [ProductFind limit])) \<and>
   (customer_find c limit = Inl e \<longrightarrow>
      get_customer_list rt c limit = (JArr [], [CustomerFind limit])) \<and>
   (order_find c limit = Inl e \<longrightarrow> get_order_list rt c limit = (JArr [], [OrderFind limit])) \<and>
   (product_find c (JInt 50) = Inl e \<longrightarrow>
      search_products rt c query = (JArr [], [ProductFind (JInt 50)])) \<and>
   (shop_current c = Inl e \<longrightarrow> get_store_info rt c = (JObj [], [ShopCurrent])) \<and>
   (product_find c (JInt n) = Inl e \<longrightarrow> get_products rt c n = (JArr [], [ProductFind (JInt n)])) \<and>
   (product_get c i = Inl e \<longrightarrow> get_product_details rt c i = (JObj [], [ProductGet i])) \<and>
   (customer_find c (JInt n) = Inl e \<longrightarrow>
      get_customers rt c n = (JArr [], [CustomerFind (JInt n)])) \<and>
   (customer_get c i = Inl e \<longrightarrow> get_customer_details rt c i = (JObj [], [CustomerGet i])) \<and>
   (order_find c (JInt n) = Inl e \<longrightarrow> get_orders rt c n = (JArr [], [OrderFind (JInt n)])) \<and>
   (product_find c (JInt 50) = Inl e \<longrightarrow>
      search_products_fastmcp rt c q n = (JArr [], [ProductFind (JInt 50)])) \<and>
   (shop_current c = Inl e \<longrightarrow> get_store_info_fastmcp rt c = (JObj [], [ShopCurrent])) \<and>
   (get_path greq = ''/api/products'' \<and> query_limit rt (query_params greq) = Inr n \<and>
    product_find c (JInt n) = Inl e \<longrightarrow>
      do_GET rt c greq = (Inr \<lparr>status = 200, body = JArr []\<rparr>, [ProductFind (JInt n)])) \<and>
   (get_path greq = ''/api/customers'' \<and> query_limit rt (query_params greq) = Inr n \<and>
    customer_find c (JInt n) = Inl e \<longrightarrow>
      do_GET rt c greq = (Inr \<lparr>status = 200, body = JArr []\<rparr>, [CustomerFind (JInt n)])) \<and>
   (get_path greq = ''/api/orders'' \<and> query_limit rt (query_params greq) = Inr n \<and>
    order_find c (JInt n) = Inl e \<longrightarrow>
      do_GET rt c greq = (Inr \<lparr>status = 200, body = JArr []\<rparr>, [OrderFind (JInt n)])) \<and>
   (get_path greq = ''/api/search'' \<and> query_q (query_params greq) = Inr q \<and>
    product_find c (JInt 50) = Inl e \<longrightarrow>
      do_GET rt c greq = (Inr \<lparr>status = 200, body = JArr []\<rparr>, [ProductFind (JInt 50)])) \<and>
   (get_path greq = ''/api/store'' \<and> shop_current c = Inl e \<longrightarrow>
      do_GET rt c greq = (Inr \<lparr>status = 200, body = JObj []\<rparr>, [ShopCurrent])) \<and>
   (post_path preq = ''/mcp'' \<and> header_int rt (content_length preq) = Inr len \<and>
    - 1 \<le> len \<and> len \<le> ssize_max \<and> payload preq = Parsed (JObj d) \<and>
    map_of d ''method'' = Some m \<and>
    (case map_of d ''params'' of None \<Rightarrow> JObj [] | Some ps \<Rightarrow> ps) = JObj pd \<and>
    (case map_of pd ''limit'' of None \<Rightarrow> JInt 10 | Some v \<Rightarrow> v) = limit \<longrightarrow>
      (m = JStr ''get_product_list'' \<and> product_find c limit = Inl e \<longrightarrow>
         do_POST rt c preq =
           (Inr \<lparr>status = 200, body = JObj [(''result'', JArr [])]\<rparr>, [ProductFind limit])) \<and>
      (m = JStr ''get_customer_list'' \<and> customer_find c limit = Inl e \<longrightarrow>
         do_POST rt c preq =
           (Inr \<lparr>status = 200, body = JObj [(''result'', JArr [])]\<rparr>, [CustomerFind limit])) \<and>
      (m = JStr ''get_order_list'' \<and> order_find c limit = Inl e \<longrightarrow>
         do_POST rt c preq =
           (Inr \<lparr>status = 200, body = JObj [(''result'', JArr [])]\<rparr>, [OrderFind limit])) \<and>
      (m = JStr ''search_products'' \<and> product_find c (JInt 50) = Inl e \<longrightarrow>
         do_POST rt c preq =
           (Inr \<lparr>status = 200, body = JObj [(''result'', JArr [])]\<rparr>, [ProductFind (JInt 50)])) \<and>
      (m = JStr ''get_store_info'' \<and> shop_current c = Inl e \<longrightarrow>
         do_POST rt c preq =
           (Inr \<lparr>status = 200, body = JObj [(''result'', JObj [])]\<rparr>, [ShopCurrent])))"
proof (intro conjI impI; (elim conjE)?)
  show "get_product_list rt c limit = (JArr [], [ProductFind limit])"
    if "product_find c limit = Inl e"
    using that by (rule raise_in_get_product_list)
  show "get_customer_list rt c limit = (JArr [], [CustomerFind limit])"
    if "customer_find c limit = Inl e"
    using that by (rule raise_in_get_customer_list)
  show "get_order_list rt c limit = (JArr [], [OrderFind limit])"
    if "order_find c limit = Inl e"
    using that by (rule raise_in_get_order_list)
  show "search_products rt c query = (JArr [], [ProductFind (JInt 50)])"
    if "product_find c (JInt 50) = Inl e"
    using that by (rule raise_in_search_products)
  show "get_store_info rt c = (JObj [], [ShopCurrent])"
    if "shop_current c = Inl e"
    using that by (rule raise_in_get_store_info)
  show "get_products rt c n = (JArr [], [ProductFind (JInt n)])"
    if "product_find c (JInt n) = Inl e"
    using that by (simp add: get_products_def)
  show "get_product_details rt c i = (JObj [], [ProductGet i])"
    if "product_get c i = Inl e"
    using that by (simp add: get_product_details_def)
  show "get_customers rt c n = (JArr [], [CustomerFind (JInt n)])"
    if "customer_find c (JInt n) = Inl e"
    using that by (simp add: get_customers_def)
  show "get_customer_details rt c i = (JObj [], [CustomerGet i])"
    if "customer_get c i = Inl e"
    using that by (simp add: get_customer_details_def)
  show "get_orders rt c n = (JArr [], [OrderFind (JInt n)])"
    if "order_find c (JInt n) = Inl e"
    using that by (simp add: get_orders_def)
  show "search_products_fastmcp rt c q n = (JArr [], [ProductFind (JInt 50)])"
    if "product_find c (JInt 50) = Inl e"
    using that by (simp add: search_products_fastmcp_def)
  show "get_store_info_fastmcp rt c = (JObj [], [ShopCurrent])"
    if "shop_current c = Inl e"
    using that by (simp add: get_store_info_fastmcp_def)
  show "do_GET rt c greq = (Inr \<lparr>status = 200, body = JArr []\<rparr>, [ProductFind (JInt n)])"
    if "get_path greq = ''/api/products''" "query_limit rt (query_params greq) = Inr n"
      "product_find c (JInt n) = Inl e"
    using that by (simp add: do_GET_products send_json_def raise_in_get_product_list)
  show "do_GET rt c greq = (Inr \<lparr>status = 200, body = JArr []\<rparr>, [CustomerFind (JInt n)])"
    if "get_path greq = ''/api/customers''" "query_limit rt (query_params greq) = Inr n"
      "customer_find c (JInt n) = Inl e"
    using that by (simp add: do_GET_customers send_json_def raise_in_get_customer_list)
  show "do_GET rt c greq = (Inr \<lparr>status = 200, body = JArr []\<rparr>, [OrderFind (JInt n)])"
    if "get_path greq = ''/api/orders''" "query_limit rt (query_params greq) = Inr n"
      "order_find c (JInt n) = Inl e"
    using that by (simp add: do_GET_orders send_json_def raise_in_get_order_list)
  show "do_GET rt c greq = (Inr \<lparr>status = 200, body = JArr []\<rparr>, [ProductFind (JInt 50)])"
    if "get_path greq = ''/api/search''" "query_q (query_params greq) = Inr q"
      "product_find c (JInt 50) = Inl e"
    using that by (simp add: do_GET_search send_json_def raise_in_search_products)
  show "do_GET rt c greq = (Inr \<lparr>status = 200, body = JObj []\<rparr>, [ShopCurrent])"
    if "get_path greq = ''/api/store''" "shop_current c = Inl e"
    using that by (simp add: do_GET_store send_json_def raise_in_get_store_info)
next
  assume reach: "post_path preq = ''/mcp''" "header_int rt (content_length preq) = Inr len"
    "- 1 \<le> len" "len \<le> ssize_max" "payload preq = Parsed (JObj d)"
    "map_of d ''method'' = Some m"
    and params: "(case map_of d ''params'' of None \<Rightarrow> JObj [] | Some ps \<Rightarrow> ps) = JObj pd"
    and limit: "(case map_of pd ''limit'' of None \<Rightarrow> JInt 10 | Some v \<Rightarrow> v) = limit"
  have post: "do_POST rt c preq = dispatch rt c m (JObj pd)"
    using do_POST_dispatch [OF reach] params by simp
  have lim: "py_get (JObj pd) ''limit'' (JInt 10) = Inr limit"
    using limit by (simp add: py_get_dict split: option.splits)
  {
    assume "m = JStr ''get_product_list''" "product_find c limit = Inl e"
    then show "do_POST rt c preq =
        (Inr \<lparr>status = 200, body = JObj [(''result'', JArr [])]\<rparr>, [ProductFind limit])"
      by (simp add: post dispatch_def lim send_result_def result_body_def
          raise_in_get_product_list)
  }
  {
    assume "m = JStr ''get_customer_list''" "customer_find c limit = Inl e"
    then show "do_POST rt c preq =
        (Inr \<lparr>status = 200, body = JObj [(''result'', JArr [])]\<rparr>, [CustomerFind limit])"
      by (simp add: post dispatch_def lim send_result_def result_body_def
          raise_in_get_customer_list)
  }
  {
    assume "m = JStr ''get_order_list''" "order_find c limit = Inl e"
    then show "do_POST rt c preq =
        (Inr \<lparr>status = 200, body = JObj [(''result'', JArr [])]\<rparr>, [OrderFind limit])"
      by (simp add: post dispatch_def lim send_result_def result_body_def
          raise_in_get_order_list)
  }
  {
    assume "m = JStr ''search_products''" "product_find c (JInt 50) = Inl e"
    then show "do_POST rt c preq =
        (Inr \<lparr>status = 200, body = JObj [(''result'', JArr [])]\<rparr>, [ProductFind (JInt 50)])"
      by (simp add: post dispatch_def py_get_dict send_result_def result_body_def
          raise_in_search_products)
  }
  {
    assume "m = JStr ''get_store_info''" "shop_current c = Inl e"
    then show "do_POST rt c preq =
        (Inr \<lparr>status = 200, body = JObj [(''result'', JObj [])]\<rparr>, [ShopCurrent])"
      by (simp add: post dispatch_def send_result_def result_body_def raise_in_get_store_info)
  }
qed


text \<open>
  The theorem at the client that raises on every operation, for each function and each
  route.
\<close>

theorem client_errors_become_empty_results_witness:
  "product_find failing_client (JInt 10) = Inl (RemoteError ''Connection refused'') \<and>
   get_product_list ascii_rt failing_client (JInt 10) = (JArr [], [ProductFind (JInt 10)]) \<and>
   get_customer_list ascii_rt failing_client (JInt 10) = (JArr [], [CustomerFind (JInt 10)]) \<and>
   get_order_list ascii_rt failing_client (JInt 10) = (JArr [], [OrderFind (JInt 10)]) \<and>
   search_products ascii_rt failing_client (JStr ''widget'') = (JArr [], [ProductFind (JInt 50)]) \<and>
   get_store_info ascii_rt failing_client = (JObj [], [ShopCurrent]) \<and>
   get_products ascii_rt failing_client 10 = (JArr [], [ProductFind (JInt 10)]) \<and>
   get_product_details ascii_rt failing_client ''1'' = (JObj [], [ProductGet ''1'']) \<and>
   get_customers ascii_rt failing_client 10 = (JArr [], [CustomerFind (JInt 10)]) \<and>
   get_customer_details ascii_rt failing_client ''1'' = (JObj [], [CustomerGet ''1'']) \<and>
   get_orders ascii_rt failing_client 10 = (JArr [], [OrderFind (JInt 10)]) \<and>
   search_products_fastmcp ascii_rt failing_client ''widget'' 10 = (JArr [], [ProductFind (JInt 50)]) \<and>
   get_store_info_fastmcp ascii_rt failing_client = (JObj [], [ShopCurrent]) \<and>
   do_GET ascii_rt failing_client (api_get ''/api/products'')
     = (Inr \<lparr>status = 200, body = JArr []\<rparr>, [ProductFind (JInt 10)]) \<and>
   do_GET ascii_rt failing_client (api_get ''/api/customers'')
     = (Inr \<lparr>status = 200, body = JArr []\<rparr>, [CustomerFind (JInt 10)]) \<and>
   do_GET ascii_rt failing_client (api_get ''/api/orders'')
     = (Inr \<lparr>status = 200, body = JArr []\<rparr>, [OrderFind (JInt 10)]) \<and>
   do_GET ascii_rt failing_client (api_get ''/api/search'')
     = (Inr \<lparr>status = 200, body = JArr []\<rparr>, [ProductFind (JInt 50)]) \<and>
   do_GET ascii_rt failing_client (api_get ''/api/store'')
     = (Inr \<lparr>status = 200, body = JObj []\<rparr>, [ShopCurrent]) \<and>
   do_POST ascii_rt failing_client (mcp_post ''get_product_list'' None)
     = (Inr \<lparr>status = 200, body = JObj [(''result'', JArr [])]\<rparr>, [ProductFind (JInt 10)]) \<and>
   do_POST ascii_rt failing_client (mcp_post ''get_customer_list'' None)
     = (Inr \<lparr>status = 200, body = JObj [(''result'', JArr [])]\<rparr>, [CustomerFind (JInt 10)]) \<and>
   do_POST ascii_rt failing_client (mcp_post ''get_order_list'' None)
     = (Inr \<lparr>status = 200, body = JObj [(''result'', JArr [])]\<rparr>, [OrderFind (JInt 10)]) \<and>
   do_POST ascii_rt failing_client (mcp_post ''search_products'' None)
     = (Inr \<lparr>status = 200, body = JObj [(''result'', JArr [])]\<rparr>, [ProductFind (JInt 50)]) \<and>
   do_POST ascii_rt failing_client (mcp_post ''get_store_info'' None)
     = (Inr \<lparr>status = 200, body = JObj [(''result'', JObj [])]\<rparr>, [ShopCurrent])"
proof -
  note inst = client_errors_become_empty_results
    [where rt = ascii_rt and c = failing_client and e = "RemoteError ''Connection refused''"
       and limit = "JInt 10" and query = "JStr ''widget''" and n = 10 and i = "''1''"
       and len = 64 and pd = "[]"]
  note facts = failing_client_raises api_get_parts mcp_post_reaches mcp_post_no_params length_64
  have funs:
    "get_product_list ascii_rt failing_client (JInt 10) = (JArr [], [ProductFind (JInt 10)])"
    "get_customer_list ascii_rt failing_client (JInt 10) = (JArr [], [CustomerFind (JInt 10)])"
    "get_order_list ascii_rt failing_client (JInt 10) = (JArr [], [OrderFind (JInt 10)])"
    "search_products ascii_rt failing_client (JStr ''widget'') = (JArr [], [ProductFind (JInt 50)])"
    "get_store_info ascii_rt failing_client = (JObj [], [ShopCurrent])"
    "get_products ascii_rt failing_client 10 = (JArr [], [ProductFind (JInt 10)])"
    "get_product_details ascii_rt failing_client ''1'' = (JObj [], [ProductGet ''1''])"
    "get_customers ascii_rt failing_client 10 = (JArr [], [CustomerFind (JInt 10)])"
    "get_customer_details ascii_rt failing_client ''1'' = (JObj [], [CustomerGet ''1''])"
    "get_orders ascii_rt failing_client 10 = (JArr [], [OrderFind (JInt 10)])"
    "search_products_fastmcp ascii_rt failing_client ''widget'' 10 = (JArr [], [ProductFind (JInt 50)])"
    "get_store_info_fastmcp ascii_rt failing_client = (JObj [], [ShopCurrent])"
    using inst [where q = "''widget''"] by (simp_all add: failing_client_raises)
  have gets:
    "do_GET ascii_rt failing_client (api_get ''/api/products'')
       = (Inr \<lparr>status = 200, body = JArr []\<rparr>, [ProductFind (JInt 10)])"
    "do_GET ascii_rt failing_client (api_get ''/api/customers'')
       = (Inr \<lparr>status = 200, body = JArr []\<rparr>, [CustomerFind (JInt 10)])"
    "do_GET ascii_rt failing_client (api_get ''/api/orders'')
       = (Inr \<lparr>status = 200, body = JArr []\<rparr>, [OrderFind (JInt 10)])"
    "do_GET ascii_rt failing_client (api_get ''/api/search'')
       = (Inr \<lparr>status = 200, body = JArr []\<rparr>, [ProductFind (JInt 50)])"
    "do_GET ascii_rt failing_client (api_get ''/api/store'')
       = (Inr \<lparr>status = 200, body = JObj []\<rparr>, [ShopCurrent])"
    using inst [where greq = "api_get ''/api/products''" and q = "[]"]
      inst [where greq = "api_get ''/api/customers''" and q = "[]"]
      inst [where greq = "api_get ''/api/orders''" and q = "[]"]
      inst [where greq = "api_get ''/api/search''" and q = "[]"]
      inst [where greq = "api_get ''/api/store''" and q = "[]"]
    by (simp_all add: facts)
  have posts:
    "do_POST ascii_rt failing_client (mcp_post ''get_product_list'' None)
       = (Inr \<lparr>status = 200, body = JObj [(''result'', JArr [])]\<rparr>, [ProductFind (JInt 10)])"
    "do_POST ascii_rt failing_client (mcp_post ''get_customer_list'' None)
       = (Inr \<lparr>status = 200, body = JObj [(''result'', JArr [])]\<rparr>, [CustomerFind (JInt 10)])"
    "do_POST ascii_rt failing_client (mcp_post ''get_order_list'' None)
       = (Inr \<lparr>status = 200, body = JObj [(''result'', JArr [])]\<rparr>, [OrderFind (JInt 10)])"
    "do_POST ascii_rt failing_client (mcp_post ''search_products'' None)
       = (Inr \<lparr>status = 200, body = JObj [(''result'', JArr [])]\<rparr>, [ProductFind (JInt 50)])"
    "do_POST ascii_rt failing_client (mcp_post ''get_store_info'' None)
       = (Inr \<lparr>status = 200, body = JObj [(''result'', JObj [])]\<rparr>, [ShopCurrent])"
    using
      inst [where preq = "mcp_post ''get_product_list'' None"
              and d = "[(''method'', JStr ''get_product_list'')]" and m = "JStr ''get_product_list''"]
      inst [where preq = "mcp_post ''get_customer_list'' None"
              and d = "[(''method'', JStr ''get_customer_list'')]" and m = "JStr ''get_customer_list''"]
      inst [where preq = "mcp_post ''get_order_list'' None"
              and d = "[(''method'', JStr ''get_order_list'')]" and m = "JStr ''get_order_list''"]
      inst [where preq = "mcp_post ''search_products'' None"
              and d = "[(''method'', JStr ''search_products'')]" and m = "JStr ''search_products''"]
      inst [where preq = "mcp_post ''get_store_info'' None"
              and d = "[(''method'', JStr ''get_store_info'')]" and m = "JStr ''get_store_info''"]
    by (simp_all add: facts)
  from funs gets posts show ?thesis
    by (simp add: failing_client_raises)
qed

text \<open>
  C2 as stated fails: the client raises, and both routes answer with status 200 and an
  empty result, not with an error response.
\<close>

theorem client_error_answered_with_empty_result:
  "product_find failing_client (JInt 10) = Inl (RemoteError ''Connection refused'') \<and>
   do_POST ascii_rt failing_client (mcp_post ''get_product_list'' None)
     = (Inr \<lparr>status = 200, body = JObj [(''result'', JArr [])]\<rparr>, [ProductFind (JInt 10)]) \<and>
   do_GET ascii_rt failing_client (api_get ''/api/products'')
     = (Inr \<lparr>status = 200, body = JArr []\<rparr>, [ProductFind (JInt 10)])"
  by code_simp


section \<open>The shape of the dictionaries (C3)\<close>







section \<open>The two surfaces (C4)\<close>












section \<open>The early stop of the search tool (C5)\<close>

lemma search_tool_length:
  "fst (search_products_fastmcp rt c q limit) = JArr xs \<Longrightarrow> length xs \<le> nat (max 1 limit)"
  by (cases "product_find c (JInt 50)")
    (auto simp: search_products_fastmcp_def search_loop_limit_eq)

text \<open>
  C5 fails on the code at a limit below 1. The test \<open>len(matched_products) >= limit\<close>
  comes after the append, so the first match is always kept: with limit 0 and a working
  set in which two products match, the search tool returns one product, more than the
  limit. The search of the HTTP server returns both matches.
\<close>

theorem search_tool_limit_zero_returns_one:
  "fst (search_products_fastmcp rt (fixture_client [alpha_widget, beta_widget]) ''widget'' 0)
     = JArr [JObj (search_dict alpha_widget)] \<and>
   \<not> int (length [JObj (search_dict alpha_widget)]) \<le> 0 \<and>
   fst (search_products rt (fixture_client [alpha_widget, beta_widget]) (JStr ''widget''))
     = JArr [JObj (search_dict alpha_widget), JObj (search_dict beta_widget)]"
proof (intro conjI)
  have find: "product_find (fixture_client [alpha_widget, beta_widget]) (JInt 50)
                = Inr [alpha_widget, beta_widget]"
    by (simp add: fixture_client_def)
  show "fst (search_products_fastmcp rt (fixture_client [alpha_widget, beta_widget]) ''widget'' 0)
     = JArr [JObj (search_dict alpha_widget)]"
    using search_products_fastmcp_eq [OF find, of rt "''widget''" 0, unfolded widget_filter] by simp
  show "\<not> int (length [JObj (search_dict alpha_widget)]) \<le> 0"
    by simp
  show "fst (search_products rt (fixture_client [alpha_widget, beta_widget]) (JStr ''widget''))
     = JArr [JObj (search_dict alpha_widget), JObj (search_dict beta_widget)]"
    using search_products_eq [OF find, of rt "''widget''", unfolded widget_filter] by simp
qed

section \<open>Unknown methods (C6)\<close>

text \<open>
  What holds: once the body of a POST to \<open>/mcp\<close> has been read and decoded, a method that
  is none of the five gets status 400 and an error value naming it; a GET under \<open>/api/\<close>
  whose endpoint is none of the five gets status 404 and an error value. Neither makes a
  call to the remote client.
\<close>

lemma unknown_method_answered:
  "(post_path req = ''/mcp'' \<and> header_int rt (content_length req) = Inr n \<and>
    - 1 \<le> n \<and> n \<le> ssize_max \<and> payload req = Parsed (JObj d) \<and>
    map_of d ''method'' = Some m \<and>
    m \<notin> {JStr ''get_product_list'', JStr ''get_customer_list'', JStr ''get_order_list'',
           JStr ''search_products'', JStr ''get_store_info''} \<longrightarrow>
      do_POST rt c req =
        (Inr \<lparr>status = 400, body = error_body (''Unknown method: '' @ py_str rt m)\<rparr>, [])) \<and>
   (py_startswith (get_path greq) ''/api/'' \<and>
    py_replace ''/api/'' [] (get_path greq)
      \<notin> {''products'', ''customers'', ''orders'', ''search'', ''store''} \<longrightarrow>
      do_GET rt c greq = (Inr \<lparr>status = 404, body = error_body ''Endpoint not found''\<rparr>, []))"
proof (intro conjI impI; elim conjE)
  assume reach: "post_path req = ''/mcp''" "header_int rt (content_length req) = Inr n"
    "- 1 \<le> n" "n \<le> ssize_max" "payload req = Parsed (JObj d)" "map_of d ''method'' = Some m"
    and unknown: "m \<notin> {JStr ''get_product_list'', JStr ''get_customer_list'',
      JStr ''get_order_list'', JStr ''search_products'', JStr ''get_store_info''}"
  show "do_POST rt c req =
        (Inr \<lparr>status = 400, body = error_body (''Unknown method: '' @ py_str rt m)\<rparr>, [])"
    using do_POST_dispatch [OF reach, of c] dispatch_unknown [OF unknown] by simp
next
  assume "py_startswith (get_path greq) ''/api/''"
    "py_replace ''/api/'' [] (get_path greq)
      \<notin> {''products'', ''customers'', ''orders'', ''search'', ''store''}"
  then show "do_GET rt c greq = (Inr \<lparr>status = 404, body = error_body ''Endpoint not found''\<rparr>, [])"
    by (rule do_GET_unknown)
qed

text \<open>
  C6 fails on the code for a POST whose \<open>Content-Length\<close> header is missing: the header is
  converted before the \<open>try\<close> is entered, \<open>int(None)\<close> raises a \<open>TypeError\<close>, and the
  exception leaves \<open>do_POST\<close> with no response written, whatever method the body names.
  The same body sent with its length gets the 400 of an unknown method.
\<close>

theorem unknown_method_without_length_raises:
  "do_POST rt c headerless_post = (Inl TypeError, []) \<and>
   do_POST rt c (mcp_post ''get_product_details'' None)
     = (Inr \<lparr>status = 400, body = JObj [(''error'', JStr ''Unknown method: get_product_details'')]\<rparr>,
        [])"
proof (intro conjI)
  show "do_POST rt c headerless_post = (Inl TypeError, [])"
    by (simp add: do_POST_def headerless_post_def mcp_post_def header_int_def)
  have "JStr ''get_product_details''
          \<notin> {JStr ''get_product_list'', JStr ''get_customer_list'', JStr ''get_order_list'',
             JStr ''search_products'', JStr ''get_store_info''}"
    by simp
  then show "do_POST rt c (mcp_post ''get_product_details'' None)
     = (Inr \<lparr>status = 400, body = JObj [(''error'', JStr ''Unknown method: get_product_details'')]\<rparr>,
        [])"
    using do_POST_dispatch [OF mcp_post_reaches(1,2) length_64 mcp_post_no_params(4,1), of rt c]
    by (simp add: dispatch_unknown error_body_def py_str_def)
qed

section \<open>Parameters (C7)\<close>

text \<open>
  C7 fails on the code for a GET with a limit that is not an integer: \<open>do_GET\<close> has no
  \<open>try\<close>, the \<open>ValueError\<close> of \<open>int\<close> leaves it, and no response is written. In \<open>do_POST\<close>
  the corresponding failure, a \<open>params\<close> that is not a dictionary, is caught and answered
  with status 500.
\<close>

theorem bad_limit_raises_out_of_do_GET:
  "do_GET rt c (limit_get ''/api/products'' ''abc'') = (Inl ValueError, []) \<and>
   do_POST rt c (mcp_post ''get_product_list'' (Some (JArr [JInt 3])))
     = (Inr \<lparr>status = 500,
             body = JObj [(''error'', JStr (''Server error: '' @ sq @ ''list'' @ sq
                                             @ '' object has no attribute '' @ sq @ ''get'' @ sq))]\<rparr>,
        [])"
proof (intro conjI)
  show "do_GET rt c (limit_get ''/api/products'' ''abc'') = (Inl ValueError, [])"
    by (simp add: do_GET_products limit_get_def query_limit_given py_int_abc)
  show "do_POST rt c (mcp_post ''get_product_list'' (Some (JArr [JInt 3])))
     = (Inr \<lparr>status = 500,
             body = JObj [(''error'', JStr (''Server error: '' @ sq @ ''list'' @ sq
                                             @ '' object has no attribute '' @ sq @ ''get'' @ sq))]\<rparr>,
        [])"
    using do_POST_dispatch [OF mcp_post_reaches(1,2) length_64 mcp_post_params(3,1), of rt c]
    by (simp add: dispatch_def py_get_def server_error_def error_body_def)
qed


section \<open>Order and ownership in the list operations (C8)\<close>

text \<open>
  C8. Whatever list of products the client returns, the list operation of either server
  returns the list of their dictionaries, one per product and in the client's order;
  the same holds of customers and orders. The \<open>variants\<close> and \<open>images\<close> of a product's
  dictionary are the dictionaries of that product's own variants and images, in their
  order. Against a client that serves the first \<open>limit\<close> of five products, a limit of 3
  gives the dictionaries of the first three.
\<close>

theorem list_preserves_order:
  "(product_find c limit = Inr ps \<longrightarrow>
      get_product_list rt c limit
        = (JArr (map (\<lambda>p. JObj (product_dict rt p)) ps), [ProductFind limit])) \<and>
   (product_find c (JInt n) = Inr ps \<longrightarrow>
      get_products rt c n = (JArr (map (\<lambda>p. JObj (product_dict rt p)) ps), [ProductFind (JInt n)])) \<and>
   (customer_find c limit = Inr cus \<longrightarrow>
      get_customer_list rt c limit
        = (JArr (map (\<lambda>cu. JObj (customer_dict rt cu)) cus), [CustomerFind limit])) \<and>
   (order_find c limit = Inr ords \<longrightarrow>
      get_order_list rt c limit
        = (JArr (map (\<lambda>ord. JObj (order_dict rt ord)) ords), [OrderFind limit])) \<and>
   dict_get (product_dict rt p) ''variants'' = Some (JArr (map variant_dict (p_variants p))) \<and>
   dict_get (product_dict rt p) ''images'' = Some (JArr (map image_dict (p_images p))) \<and>
   (length fixture = 5 \<longrightarrow>
      fst (get_product_list rt (fixture_client fixture) (JInt 3))
        = JArr (map (\<lambda>p. JObj (product_dict rt p)) (take 3 fixture)) \<and>
      fst (get_products rt (fixture_client fixture) 3)
        = JArr (map (\<lambda>p. JObj (product_dict rt p)) (take 3 fixture)) \<and>
      length (map (\<lambda>p. JObj (product_dict rt p)) (take 3 fixture)) = 3)"
proof (intro conjI impI)
  show "get_product_list rt c limit
        = (JArr (map (\<lambda>p. JObj (product_dict rt p)) ps), [ProductFind limit])"
    if "product_find c limit = Inr ps"
    using that by (rule get_product_list_eq)
  show "get_products rt c n = (JArr (map (\<lambda>p. JObj (product_dict rt p)) ps), [ProductFind (JInt n)])"
    if "product_find c (JInt n) = Inr ps"
    using that by (rule get_products_eq)
  show "get_customer_list rt c limit
        = (JArr (map (\<lambda>cu. JObj (customer_dict rt cu)) cus), [CustomerFind limit])"
    if "customer_find c limit = Inr cus"
    using that by (simp add: get_customer_list_def customer_loop_eq)
  show "get_order_list rt c limit
        = (JArr (map (\<lambda>ord. JObj (order_dict rt ord)) ords), [OrderFind limit])"
    if "order_find c limit = Inr ords"
    using that by (simp add: get_order_list_def order_loop_eq)
  show "dict_get (product_dict rt p) ''variants'' = Some (JArr (map variant_dict (p_variants p)))"
    by (simp add: product_dict_eq dict_get_def)
  show "dict_get (product_dict rt p) ''images'' = Some (JArr (map image_dict (p_images p)))"
    by (simp add: product_dict_eq dict_get_def)
  show "fst (get_product_list rt (fixture_client fixture) (JInt 3))
        = JArr (map (\<lambda>p. JObj (product_dict rt p)) (take 3 fixture))"
    using get_product_list_eq [OF fixture_find, of rt fixture 3] by simp
  show "fst (get_products rt (fixture_client fixture) 3)
        = JArr (map (\<lambda>p. JObj (product_dict rt p)) (take 3 fixture))"
    using get_products_eq [OF fixture_find, of rt fixture 3] by simp
  show "length (map (\<lambda>p. JObj (product_dict rt p)) (take 3 fixture)) = 3"
    if "length fixture = 5"
    using that by simp
qed

text \<open>The theorem at the fixture of five products, the first with a variant and two images.\<close>

theorem list_preserves_order_witness:
  "length five_products = 5 \<and>
   product_find (fixture_client five_products) (JInt 3) = Inr [alpha_widget, beta_widget, gizmo] \<and>
   fst (get_product_list ascii_rt (fixture_client five_products) (JInt 3))
     = JArr [JObj (product_dict ascii_rt alpha_widget), JObj (product_dict ascii_rt beta_widget),
             JObj (product_dict ascii_rt gizmo)] \<and>
   fst (get_products ascii_rt (fixture_client five_products) 3)
     = JArr [JObj (product_dict ascii_rt alpha_widget), JObj (product_dict ascii_rt beta_widget),
             JObj (product_dict ascii_rt gizmo)] \<and>
   dict_get (product_dict ascii_rt alpha_widget) ''variants''
     = Some (JArr [JObj [(''id'', JInt 11), (''title'', JStr ''Small''), (''price'', JStr ''9.99''),
                         (''sku'', JStr ''AW-S''), (''inventory_quantity'', JInt 4)]]) \<and>
   dict_get (product_dict ascii_rt beta_widget) ''variants'' = Some (JArr []) \<and>
   dict_get (product_dict ascii_rt beta_widget) ''images'' = Some (JArr []) \<and>
   customer_find (fixture_client five_products) (JInt 3) = Inr [a_customer] \<and>
   get_customer_list ascii_rt (fixture_client five_products) (JInt 3)
     = (JArr [JObj (customer_dict ascii_rt a_customer)], [CustomerFind (JInt 3)]) \<and>
   order_find (fixture_client five_products) (JInt 3) = Inr [an_order] \<and>
   get_order_list ascii_rt (fixture_client five_products) (JInt 3)
     = (JArr [JObj (order_dict ascii_rt an_order)], [OrderFind (JInt 3)])"
proof -
  have len: "length five_products = 5"
    by (simp add: five_products_def)
  have t: "take 3 five_products = [alpha_widget, beta_widget, gizmo]"
    by (simp add: five_products_def)
  note a = list_preserves_order
    [where rt = ascii_rt and c = "fixture_client five_products" and limit = "JInt 3" and n = 3
       and ps = "[alpha_widget, beta_widget, gizmo]"
       and cus = "[a_customer]" and ords = "[an_order]" and fixture = five_products
       and p = alpha_widget]
  note b = list_preserves_order
    [where rt = ascii_rt and fixture = five_products and p = beta_widget,
       THEN conjunct2, THEN conjunct2, THEN conjunct2, THEN conjunct2]
  from a len have lists:
    "fst (get_product_list ascii_rt (fixture_client five_products) (JInt 3))
       = JArr (map (\<lambda>p. JObj (product_dict ascii_rt p)) (take 3 five_products))"
    "fst (get_products ascii_rt (fixture_client five_products) 3)
       = JArr (map (\<lambda>p. JObj (product_dict ascii_rt p)) (take 3 five_products))"
    by blast+
  from a fixture_records have others:
    "get_customer_list ascii_rt (fixture_client five_products) (JInt 3)
       = (JArr [JObj (customer_dict ascii_rt a_customer)], [CustomerFind (JInt 3)])"
    "get_order_list ascii_rt (fixture_client five_products) (JInt 3)
       = (JArr [JObj (order_dict ascii_rt an_order)], [OrderFind (JInt 3)])"
    by simp_all
  from a have av: "dict_get (product_dict ascii_rt alpha_widget) ''variants''
      = Some (JArr (map variant_dict (p_variants alpha_widget)))"
    by blast
  from b have bv: "dict_get (product_dict ascii_rt beta_widget) ''variants''
      = Some (JArr (map variant_dict (p_variants beta_widget)))"
    and bi: "dict_get (product_dict ascii_rt beta_widget) ''images''
      = Some (JArr (map image_dict (p_images beta_widget)))"
    by blast+
  show ?thesis
    using len fixture_three fixture_records others lists [unfolded t] av bv bi
    by (simp add: alpha_widget_def beta_widget_def plain_product_def variant_dict_def)
qed

section \<open>The image of a search hit (C9)\<close>

text \<open>
  C9. A search returns, for the products of the working set that match, their search
  dictionaries, and the list operation returns for every product its full dictionary.
  When a product has an image, its search dictionary carries the source of its first
  image under \<open>image\<close>, and nothing under \<open>images\<close>; its full dictionary carries the
  dictionaries of all its images under \<open>images\<close> and has no key \<open>image\<close>. The search
  dictionary of a product without images has no key \<open>image\<close>.
\<close>

theorem search_first_image_only:
  "(product_find c (JInt 50) = Inr ps \<longrightarrow>
      fst (search_products rt c (JStr q))
        = JArr (map (\<lambda>p. JObj (search_dict p)) (filter (product_matches rt (py_lower rt q)) ps)) \<and>
      fst (search_products_fastmcp rt c q limit)
        = JArr (take (nat (max 1 limit))
                  (map (\<lambda>p. JObj (search_dict p)) (filter (product_matches rt (py_lower rt q)) ps)))) \<and>
   (product_find c l = Inr ps' \<longrightarrow>
      fst (get_product_list rt c l) = JArr (map (\<lambda>p. JObj (product_dict rt p)) ps')) \<and>
   (product_find c (JInt n) = Inr ps' \<longrightarrow>
      fst (get_products rt c n) = JArr (map (\<lambda>p. JObj (product_dict rt p)) ps')) \<and>
   (p_images p = img # rest \<longrightarrow>
      dict_get (search_dict p) ''image'' = Some (JObj [(''src'', i_src img)]) \<and>
      dict_get (search_dict p) ''images'' = Some (JArr []) \<and>
      dict_get (product_dict rt p) ''images''
        = Some (JArr (map (\<lambda>i. JObj [(''id'', i_id i), (''src'', i_src i), (''position'', i_position i)])
                        (img # rest))) \<and>
      dict_get (product_dict rt p) ''image'' = None) \<and>
   (p_images p' = [] \<longrightarrow> dict_get (search_dict p') ''image'' = None)"
proof (intro conjI impI)
  show "fst (search_products rt c (JStr q))
        = JArr (map (\<lambda>p. JObj (search_dict p)) (filter (product_matches rt (py_lower rt q)) ps))"
    if "product_find c (JInt 50) = Inr ps"
    using search_products_eq [OF that, of rt q] by simp
  show "fst (search_products_fastmcp rt c q limit)
        = JArr (take (nat (max 1 limit))
                  (map (\<lambda>p. JObj (search_dict p)) (filter (product_matches rt (py_lower rt q)) ps)))"
    if "product_find c (JInt 50) = Inr ps"
    using search_products_fastmcp_eq [OF that, of rt q limit] by simp
  show "fst (get_product_list rt c l) = JArr (map (\<lambda>p. JObj (product_dict rt p)) ps')"
    if "product_find c l = Inr ps'"
    using get_product_list_eq [OF that, of rt] by simp
  show "fst (get_products rt c n) = JArr (map (\<lambda>p. JObj (product_dict rt p)) ps')"
    if "product_find c (JInt n) = Inr ps'"
    using get_products_eq [OF that, of rt] by simp
qed (simp_all add: search_dict_eq product_dict_eq dict_get_def image_dict_def)

text \<open>
  The theorem at the fixture of five products: the first, with two images, and the
  second, with none, match \<open>WIDGET\<close>.
\<close>

theorem search_first_image_only_witness:
  "product_find (fixture_client five_products) (JInt 50) = Inr five_products \<and>
   fst (search_products ascii_rt (fixture_client five_products) (JStr ''WIDGET''))
     = JArr [JObj (search_dict alpha_widget), JObj (search_dict beta_widget)] \<and>
   fst (search_products_fastmcp ascii_rt (fixture_client five_products) ''WIDGET'' 10)
     = JArr [JObj (search_dict alpha_widget), JObj (search_dict beta_widget)] \<and>
   fst (get_product_list ascii_rt (fixture_client five_products) (JInt 50))
     = JArr (map (\<lambda>p. JObj (product_dict ascii_rt p)) five_products) \<and>
   fst (get_products ascii_rt (fixture_client five_products) 50)
     = JArr (map (\<lambda>p. JObj (product_dict ascii_rt p)) five_products) \<and>
   p_images alpha_widget
     = [\<lparr>i_id = JInt 21, i_src = JStr ''https://cdn.example/a1.png'', i_position = JInt 1\<rparr>,
        \<lparr>i_id = JInt 22, i_src = JStr ''https://cdn.example/a2.png'', i_position = JInt 2\<rparr>] \<and>
   dict_get (search_dict alpha_widget) ''image''
     = Some (JObj [(''src'', JStr ''https://cdn.example/a1.png'')]) \<and>
   dict_get (search_dict alpha_widget) ''images'' = Some (JArr []) \<and>
   dict_get (product_dict ascii_rt alpha_widget) ''images''
     = Some (JArr [JObj [(''id'', JInt 21), (''src'', JStr ''https://cdn.example/a1.png''),
                         (''position'', JInt 1)],
                   JObj [(''id'', JInt 22), (''src'', JStr ''https://cdn.example/a2.png''),
                         (''position'', JInt 2)]]) \<and>
   dict_get (product_dict ascii_rt alpha_widget) ''image'' = None \<and>
   p_images beta_widget = [] \<and>
   dict_get (search_dict beta_widget) ''image'' = None"
proof -
  have a: "p_images alpha_widget
     = [\<lparr>i_id = JInt 21, i_src = JStr ''https://cdn.example/a1.png'', i_position = JInt 1\<rparr>,
        \<lparr>i_id = JInt 22, i_src = JStr ''https://cdn.example/a2.png'', i_position = JInt 2\<rparr>]"
    by (simp add: alpha_widget_def)
  have b: "p_images beta_widget = []"
    by (simp add: beta_widget_def plain_product_def)
  note inst = search_first_image_only
    [where rt = ascii_rt and c = "fixture_client five_products" and ps = five_products
       and ps' = five_products and q = "''WIDGET''" and limit = 10 and l = "JInt 50" and n = 50
       and p = alpha_widget and p' = beta_widget, unfolded a b five_filter]
  from inst fixture_fifty a b show ?thesis
    by simp
qed

section \<open>A search without a query (C10)\<close>

text \<open>
  C10. A GET of \<open>/api/search\<close> without a \<open>q\<close> parameter searches for the empty string,
  which every product matches: whatever working set the client returns for the limit
  of 50, the response is status 200 with the search dictionary of every product of the
  working set, in order.
\<close>

theorem search_without_query_returns_working_set:
  "get_path req = ''/api/search'' \<Longrightarrow> query_params req ''q'' = None \<Longrightarrow>
   product_find c (JInt 50) = Inr ps \<Longrightarrow>
   query_q (query_params req) = Inr [] \<and>
   (\<forall>p. product_matches rt (py_lower rt []) p) \<and>
   do_GET rt c req =
     (Inr \<lparr>status = 200, body = JArr (map (\<lambda>p. JObj (search_dict p)) ps)\<rparr>,
      [ProductFind (JInt 50)])"
proof (intro conjI allI)
  assume path: "get_path req = ''/api/search''" and q: "query_params req ''q'' = None"
    and find: "product_find c (JInt 50) = Inr ps"
  show qq: "query_q (query_params req) = Inr []"
    using q by (rule query_q_default)
  show all: "product_matches rt (py_lower rt []) p" for p
    by (simp add: py_lower_Nil product_matches_Nil)
  have "do_GET rt c req = send_json (search_products rt c (JStr []))"
    by (simp add: do_GET_search path qq)
  also have "\<dots> = (Inr \<lparr>status = 200, body = JArr (map (\<lambda>p. JObj (search_dict p)) ps)\<rparr>,
      [ProductFind (JInt 50)])"
    using search_products_eq [OF find, of rt "[]"] all
    by (simp add: send_json_def)
  finally show "do_GET rt c req =
     (Inr \<lparr>status = 200, body = JArr (map (\<lambda>p. JObj (search_dict p)) ps)\<rparr>,
      [ProductFind (JInt 50)])" .
qed

text \<open>The theorem at the fixture of five products.\<close>

theorem search_without_query_returns_working_set_witness:
  "get_path (api_get ''/api/search'') = ''/api/search'' \<and>
   query_params (api_get ''/api/search'') ''q'' = None \<and>
   product_find (fixture_client five_products) (JInt 50) = Inr five_products \<and>
   do_GET ascii_rt (fixture_client five_products) (api_get ''/api/search'') =
     (Inr \<lparr>status = 200, body = JArr (map (\<lambda>p. JObj (search_dict p)) five_products)\<rparr>,
      [ProductFind (JInt 50)])"
proof -
  have path: "get_path (api_get ''/api/search'') = ''/api/search''"
    and q: "query_params (api_get ''/api/search'') ''q'' = None"
    by (simp_all add: api_get_def)
  from search_without_query_returns_working_set [OF path q fixture_fifty, of ascii_rt]
    path q fixture_fifty
  show ?thesis by simp
qed


end
